theory Spec2Isabelle
  imports Complex_Main
begin

section \<open>Values of the runtime\<close>

text \<open>
  A payload field has the TypeScript type \<open>unknown\<close>. The model keeps the distinctions
  the code tests with \<open>typeof\<close>, \<open>isNaN\<close> and truthiness. A finite number is a real
  (every double is one); the code only compares numbers and asks whether one is an
  integer, so no rounding is involved. A string is a list of 8-bit characters, read as
  the code units 0..255.
\<close>

datatype jsnum = NaN | NegInfinity | Finite real | PosInfinity

datatype jsval =
    JUndefined
  | JNull
  | JBool bool
  | JNumber jsnum
  | JString string
  | JObject

type_synonym payload = "string \<Rightarrow> jsval"

text \<open>A thrown value: the \<open>code\<close> of a \<open>NodeJS.ErrnoException\<close> when it has one, and its message.\<close>

datatype exn = Exn (exn_code: "string option") (exn_message: string)

datatype rdata =
    Text string
  | Listing "(string \<times> string \<times> nat \<times> string) list" bool nat

record CommandResult =
  success :: bool
  data :: "rdata option"
  error :: "string option"

definition failure :: "string \<Rightarrow> CommandResult" where
  "failure msg = \<lparr>success = False, data = None, error = Some msg\<rparr>"

definition succeeded :: "rdata \<Rightarrow> CommandResult" where
  "succeeded d = \<lparr>success = True, data = Some d, error = None\<rparr>"

text \<open>What an asynchronous call comes to: a value, a rejection, or a promise that never settles.\<close>

datatype 'a outcome = Returns 'a | Throws exn | Pending

subsection \<open>utils.ts\<close>

definition getErrorMessage :: "exn \<Rightarrow> string" where
  "getErrorMessage e = exn_message e"

fun parseString :: "jsval \<Rightarrow> string option" where
  "parseString (JString s) = (if length s > 0 then Some s else None)"
| "parseString _ = None"

fun parseNumber :: "jsval \<Rightarrow> jsnum option" where
  "parseNumber (JNumber NaN) = None"
| "parseNumber (JNumber n) = Some n"
| "parseNumber _ = None"

text \<open>\<open>a < b\<close> and \<open>a > b\<close> of JavaScript, for a number that is not NaN against a finite bound.\<close>

fun num_less :: "jsnum \<Rightarrow> real \<Rightarrow> bool" where
  "num_less NaN b = False"
| "num_less NegInfinity b = True"
| "num_less (Finite a) b = (a < b)"
| "num_less PosInfinity b = False"

fun num_greater :: "jsnum \<Rightarrow> real \<Rightarrow> bool" where
  "num_greater NaN b = False"
| "num_greater NegInfinity b = False"
| "num_greater (Finite a) b = (a > b)"
| "num_greater PosInfinity b = True"

text \<open>\<open>!n\<close> on a number: zero and NaN are falsy.\<close>

fun num_falsy :: "jsnum \<Rightarrow> bool" where
  "num_falsy NaN = True"
| "num_falsy (Finite a) = (a = 0)"
| "num_falsy _ = False"

fun isInteger :: "jsnum \<Rightarrow> bool" where
  "isInteger (Finite a) = (real_of_int \<lfloor>a\<rfloor> = a)"
| "isInteger _ = False"

fun truthy :: "jsval \<Rightarrow> bool" where
  "truthy JUndefined = False"
| "truthy JNull = False"
| "truthy (JBool b) = b"
| "truthy (JNumber n) = (\<not> num_falsy n)"
| "truthy (JString s) = (s \<noteq> [])"
| "truthy JObject = True"

text \<open>\<open>String.prototype.startsWith\<close> and \<open>String.prototype.includes\<close>.\<close>

fun startsWith :: "string \<Rightarrow> string \<Rightarrow> bool" where
  "startsWith s [] = True"
| "startsWith [] (p # ps) = False"
| "startsWith (c # cs) (p # ps) = (c = p \<and> startsWith cs ps)"

fun str_includes :: "string \<Rightarrow> string \<Rightarrow> bool" where
  "str_includes [] sub = startsWith [] sub"
| "str_includes (c # cs) sub = (startsWith (c # cs) sub \<or> str_includes cs sub)"

section \<open>The command validator\<close>

subsection \<open>The regular expressions of \<open>BLOCKED_COMMAND_PATTERNS\<close>\<close>

text \<open>
  The five patterns use literals, the classes \<open>\s\<close>, \<open>\w\<close>, \<open>.\<close> and \<open>[a-z]\<close>, the
  quantifiers \<open>+\<close> and \<open>*\<close> on a class, the word boundary \<open>\b\<close> and the negative
  lookahead \<open>(?!\w)\<close>. None has a flag, so \<open>test\<close> keeps no state between calls,
  \<open>.\<close> stops at a line terminator and a class is not Unicode-aware.
\<close>

datatype item =
    Lit char
  | Cls "char \<Rightarrow> bool"
  | Star "char \<Rightarrow> bool"
  | Plus "char \<Rightarrow> bool"
  | WordBoundary
  | NotFollowedBy "char \<Rightarrow> bool"

definition is_space :: "char \<Rightarrow> bool" where
  "is_space c = (c \<in> set [CHR 0x09, CHR 0x0A, CHR 0x0B, CHR 0x0C, CHR 0x0D, CHR 0x20, CHR 0xA0])"

definition is_lower :: "char \<Rightarrow> bool" where
  "is_lower c = ((97::nat) \<le> of_char c \<and> of_char c \<le> (122::nat))"

definition is_word :: "char \<Rightarrow> bool" where
  "is_word c = (let n = (of_char c :: nat) in
     (97 \<le> n \<and> n \<le> 122) \<or> (65 \<le> n \<and> n \<le> 90) \<or> (48 \<le> n \<and> n \<le> 57) \<or> c = CHR ''_'')"

definition is_dot :: "char \<Rightarrow> bool" where
  "is_dot c = (c \<noteq> CHR 0x0A \<and> c \<noteq> CHR 0x0D)"

definition word_opt :: "char option \<Rightarrow> bool" where
  "word_opt c = (case c of None \<Rightarrow> False | Some x \<Rightarrow> is_word x)"

definition next_char :: "string \<Rightarrow> char option" where
  "next_char s = (case s of [] \<Rightarrow> None | x # _ \<Rightarrow> Some x)"

text \<open>
  \<open>match_here items prev s\<close>: the items match a prefix of \<open>s\<close>, where \<open>prev\<close> is the
  character before \<open>s\<close> in the whole input. Backtracking finds a match exactly when one
  exists, so the quantifiers try every count.
\<close>

function match_here :: "item list \<Rightarrow> char option \<Rightarrow> string \<Rightarrow> bool" where
  "match_here [] prev s = True"
| "match_here (Lit c # r) prev s =
     (case s of [] \<Rightarrow> False | x # xs \<Rightarrow> x = c \<and> match_here r (Some x) xs)"
| "match_here (Cls p # r) prev s =
     (case s of [] \<Rightarrow> False | x # xs \<Rightarrow> p x \<and> match_here r (Some x) xs)"
| "match_here (Star p # r) prev s =
     (match_here r prev s \<or>
      (case s of [] \<Rightarrow> False | x # xs \<Rightarrow> p x \<and> match_here (Star p # r) (Some x) xs))"
| "match_here (Plus p # r) prev s =
     (case s of [] \<Rightarrow> False | x # xs \<Rightarrow> p x \<and> match_here (Star p # r) (Some x) xs)"
| "match_here (WordBoundary # r) prev s =
     (word_opt prev \<noteq> word_opt (next_char s) \<and> match_here r prev s)"
| "match_here (NotFollowedBy p # r) prev s =
     ((case s of [] \<Rightarrow> True | x # _ \<Rightarrow> \<not> p x) \<and> match_here r prev s)"
  by pat_completeness auto
termination
  by (relation "measure (\<lambda>(items, prev, s). 2 * length s + length items)") auto

text \<open>\<open>RegExp.prototype.test\<close>: a match may start at any position.\<close>

fun search :: "item list \<Rightarrow> char option \<Rightarrow> string \<Rightarrow> bool" where
  "search items prev [] = match_here items prev []"
| "search items prev (x # xs) = (match_here items prev (x # xs) \<or> search items (Some x) xs)"

definition test :: "item list \<Rightarrow> string \<Rightarrow> bool" where
  "test items s = search items None s"

definition lits :: "string \<Rightarrow> item list" where
  "lits s = map Lit s"

definition bsl :: string where
  "bsl = [CHR 0x5C]"

text \<open>Each pattern with its source text, which the error message quotes.\<close>

definition BLOCKED_COMMAND_PATTERNS :: "(item list \<times> string) list" where
  "BLOCKED_COMMAND_PATTERNS =
    [ (WordBoundary # lits ''rm'' @ [Plus is_space] @ lits ''-rf'' @ [Plus is_space] @ lits ''/''
         @ [NotFollowedBy is_word],
       ''/'' @ bsl @ ''brm'' @ bsl @ ''s+-rf'' @ bsl @ ''s+'' @ bsl @ ''/(?!'' @ bsl @ ''w)/''),
      (WordBoundary # lits ''mkfs'' @ [WordBoundary],
       ''/'' @ bsl @ ''bmkfs'' @ bsl @ ''b/''),
      (WordBoundary # lits ''dd'' @ [Plus is_space, Star is_dot] @ lits ''of=/dev/'',
       ''/'' @ bsl @ ''bdd'' @ bsl @ ''s+.*of='' @ bsl @ ''/dev'' @ bsl @ ''//''),
      (lits ''>'' @ [Star is_space] @ lits ''/dev/sd'' @ [Cls is_lower],
       ''/>'' @ bsl @ ''s*'' @ bsl @ ''/dev'' @ bsl @ ''/sd[a-z]/''),
      (lits '':()'' @ [Star is_space] @ lits ''{'' @ [Star is_dot] @ lits ''};'' @ [Star is_space]
         @ lits '':'',
       ''/:'' @ bsl @ ''('' @ bsl @ '')'' @ bsl @ ''s*'' @ bsl @ ''{.*'' @ bsl @ ''};'' @ bsl @ ''s*:/'') ]"

fun first_blocked :: "(item list \<times> string) list \<Rightarrow> string \<Rightarrow> string option" where
  "first_blocked [] command = None"
| "first_blocked (p # ps) command =
     (if test (fst p) command
      then Some (''Blocked dangerous command pattern: '' @ snd p)
      else first_blocked ps command)"

definition validateCommand :: "string \<Rightarrow> string option" where
  "validateCommand command = first_blocked BLOCKED_COMMAND_PATTERNS command"

section \<open>The host and the constants\<close>

text \<open>
  \<open>constants.ts\<close> is not among the sources, so its values are parameters. The host gives
  what the code asks of Node and the operating system: path arithmetic, \<open>realpath\<close>
  (\<open>None\<close> when it rejects), the file system calls with the error they may throw, the
  outcome of \<open>process.kill\<close>, and the text of a number in a template string.
\<close>

record constants =
  CMD_DEFAULT_TIMEOUT :: real
  MAX_CMD_TIMEOUT :: real
  MAX_DIR_ENTRIES :: nat
  MAX_FILE_READ_SIZE :: nat
  MAX_FILE_WRITE_SIZE :: nat
  MAX_OUTPUT_SIZE :: nat
  PROCESS_LIST_TIMEOUT :: real

record host =
  realpath :: "string \<Rightarrow> string option"
  path_resolve :: "string \<Rightarrow> string"
  path_dirname :: "string \<Rightarrow> string"
  path_basename :: "string \<Rightarrow> string"
  path_join :: "string \<Rightarrow> string \<Rightarrow> string"
  homedir :: string
  platform :: string
  environ :: "string \<Rightarrow> string option"
  stat_size :: "string \<Rightarrow> exn + nat"
  readFile :: "string \<Rightarrow> exn + string"
  mkdir :: "string \<Rightarrow> exn + unit"
  writeFile :: "string \<Rightarrow> string \<Rightarrow> exn + unit"
  readdir :: "string \<Rightarrow> exn + (string \<times> bool) list"
  lstat :: "string \<Rightarrow> exn + nat \<times> string"
  os_kill :: "jsnum \<Rightarrow> string \<Rightarrow> exn + unit"
  num_text :: "jsnum \<Rightarrow> string"

text \<open>What a handler does to the world outside, in the order it does it.\<close>

datatype effect =
    Spawn string "string list" string "(string \<times> string) list"
  | SetTimeout jsnum
  | ClearTimeout
  | ChildKill string
  | Resolve CommandResult
  | ProcessKill jsnum string
  | Mkdir string
  | WriteFile string string

section \<open>The path guard\<close>

definition BLOCKED_PATH_PREFIXES :: "string list" where
  "BLOCKED_PATH_PREFIXES =
     [''/etc/'', ''/proc/'', ''/sys/'', ''/dev/'', ''/private/etc/'', ''/private/var/db/'']"

definition getSensitiveHomePaths :: "host \<Rightarrow> string list" where
  "getSensitiveHomePaths H =
     map (\<lambda>dir. path_join H (homedir H) dir @ ''/'') [''.ssh'', ''.aws'', ''.gnupg'', ''.config/gcloud'']"

text \<open>\<open>prefix.replace(/\/$/, '')\<close>: one slash at the very end goes.\<close>

definition without_trailing_slash :: "string \<Rightarrow> string" where
  "without_trailing_slash p = (if p \<noteq> [] \<and> last p = CHR ''/'' then butlast p else p)"

text \<open>The path that is compared: the three attempts of \<open>validateFilePath\<close>, in its order.\<close>

definition resolved_path :: "host \<Rightarrow> string \<Rightarrow> string" where
  "resolved_path H filePath =
     (case realpath H filePath of
        Some r \<Rightarrow> r
      | None \<Rightarrow>
          (let parentDir = path_dirname H (path_resolve H filePath) in
           case realpath H parentDir of
             Some realParent \<Rightarrow> path_join H realParent (path_basename H filePath)
           | None \<Rightarrow> path_resolve H filePath))"

fun check_prefixes :: "string \<Rightarrow> string list \<Rightarrow> string option" where
  "check_prefixes resolved [] = None"
| "check_prefixes resolved (prefix # rest) =
     (let prefixWithoutSlash = without_trailing_slash prefix in
      if resolved = prefixWithoutSlash \<or> startsWith resolved prefix
      then Some (''Access denied: '' @ prefix @ '' paths are blocked'')
      else check_prefixes resolved rest)"

definition validateFilePath :: "host \<Rightarrow> string \<Rightarrow> string option" where
  "validateFilePath H filePath =
     (let resolved = resolved_path H filePath;
          allBlocked = BLOCKED_PATH_PREFIXES @ getSensitiveHomePaths H
      in check_prefixes resolved allBlocked)"

text \<open>\<open>Inl\<close> is the failure result, \<open>Inr\<close> the path the handler goes on with.\<close>

definition resolveAndValidatePath :: "host \<Rightarrow> payload \<Rightarrow> string option \<Rightarrow> CommandResult + string" where
  "resolveAndValidatePath H payload defaultPath =
     (case (case parseString (payload ''path'') of Some p \<Rightarrow> Some p | None \<Rightarrow> defaultPath) of
        None \<Rightarrow> Inl (failure ''No file path specified'')
      | Some filePath \<Rightarrow>
          (if filePath = [] then Inl (failure ''No file path specified'')
           else case validateFilePath H filePath of
                  Some pathError \<Rightarrow> Inl (failure pathError)
                | None \<Rightarrow> Inr filePath))"

section \<open>The shell runner\<close>

definition SAFE_ENV_KEYS :: "string list" where
  "SAFE_ENV_KEYS =
     [''PATH'', ''HOME'', ''USER'', ''SHELL'', ''LANG'', ''LC_ALL'', ''LC_MESSAGES'',
      ''TERM'', ''TMPDIR'', ''TMP'', ''TEMP'', ''NODE_ENV'',
      ''SystemRoot'', ''USERPROFILE'', ''APPDATA'', ''PATHEXT'', ''COMSPEC'']"

definition buildSafeEnv :: "host \<Rightarrow> (string \<times> string) list" where
  "buildSafeEnv H = List.map_filter (\<lambda>key. map_option (Pair key) (environ H key)) SAFE_ENV_KEYS"

text \<open>
  A chunk of output is a \<open>Buffer\<close>: its length in bytes and the text \<open>toString\<close> gives.
  The child process is what it does, in order: chunks on either stream, \<open>close\<close> with
  the exit code (\<open>null\<close> after a signal), \<open>error\<close>, and the moment the timer elapses.
\<close>

datatype buffer = Buffer (byte_length: nat) (to_text: string)

datatype proc_event =
    StdoutData buffer
  | StderrData buffer
  | Close "int option"
  | SpawnError exn
  | TimerElapsed

record shell_state =
  resolved :: bool
  stdout :: string
  stderr :: string
  outputSize :: nat
  timerPending :: bool

definition initial_shell :: shell_state where
  "initial_shell = \<lparr>resolved = False, stdout = [], stderr = [], outputSize = 0, timerPending = True\<rparr>"

definition on_timeout :: "host \<Rightarrow> jsnum \<Rightarrow> shell_state \<Rightarrow> shell_state \<times> effect list" where
  "on_timeout H timeout s =
     (if \<not> resolved s
      then (s\<lparr>resolved := True\<rparr>,
            [ChildKill ''SIGKILL'',
             Resolve (failure (''Command timed out after '' @ num_text H timeout @ ''ms''))])
      else (s, []))"

definition on_stdout :: "constants \<Rightarrow> buffer \<Rightarrow> shell_state \<Rightarrow> shell_state" where
  "on_stdout K chunk s =
     (let s1 = s\<lparr>outputSize := outputSize s + byte_length chunk\<rparr> in
      if outputSize s1 \<le> MAX_OUTPUT_SIZE K then s1\<lparr>stdout := stdout s1 @ to_text chunk\<rparr> else s1)"

definition on_stderr :: "constants \<Rightarrow> buffer \<Rightarrow> shell_state \<Rightarrow> shell_state" where
  "on_stderr K chunk s =
     (let s1 = s\<lparr>outputSize := outputSize s + byte_length chunk\<rparr> in
      if outputSize s1 \<le> MAX_OUTPUT_SIZE K then s1\<lparr>stderr := stderr s1 @ to_text chunk\<rparr> else s1)"

definition exit_code_text :: "host \<Rightarrow> int option \<Rightarrow> string" where
  "exit_code_text H code = (case code of None \<Rightarrow> ''null'' | Some n \<Rightarrow> num_text H (Finite (real_of_int n)))"

definition on_close :: "constants \<Rightarrow> host \<Rightarrow> int option \<Rightarrow> shell_state \<Rightarrow> shell_state \<times> effect list" where
  "on_close K H code s =
     (let s1 = s\<lparr>timerPending := False\<rparr> in
      if resolved s1 then (s1, [ClearTimeout])
      else
        (let s2 = s1\<lparr>resolved := True\<rparr>;
             truncated = outputSize s2 > MAX_OUTPUT_SIZE K;
             suffix = (if truncated then [CHR 0x0A] @ ''... [output truncated]'' else [])
         in if code = Some 0
            then (s2, [ClearTimeout, Resolve \<lparr>success = True, data = Some (Text (stdout s2 @ suffix)), error = None\<rparr>])
            else (s2, [ClearTimeout,
                       Resolve \<lparr>success = False, data = Some (Text (stdout s2 @ suffix)),
                                error = Some (if stderr s2 \<noteq> [] then stderr s2
                                              else ''Process exited with code '' @ exit_code_text H code)\<rparr>])))"

definition on_error :: "string \<Rightarrow> exn \<Rightarrow> shell_state \<Rightarrow> shell_state \<times> effect list" where
  "on_error shellCmd err s =
     (let s1 = s\<lparr>timerPending := False\<rparr> in
      if resolved s1 then (s1, [ClearTimeout])
      else
        (let s2 = s1\<lparr>resolved := True\<rparr>;
             errorMessage =
               (if exn_code err = Some ''ENOENT'' then ''Command not found: '' @ shellCmd
                else if exn_code err = Some ''EACCES'' then ''Permission denied: '' @ shellCmd
                else exn_message err)
         in (s2, [ClearTimeout, Resolve (failure errorMessage)])))"

text \<open>
  One event reaches its callback. The runtime runs the timer's callback at most once
  and never after \<open>clearTimeout\<close>, which \<open>timerPending\<close> records.
\<close>

definition on_event :: "constants \<Rightarrow> host \<Rightarrow> jsnum \<Rightarrow> string \<Rightarrow> proc_event \<Rightarrow> shell_state \<Rightarrow> shell_state \<times> effect list" where
  "on_event K H timeout shellCmd ev s =
     (case ev of
        StdoutData chunk \<Rightarrow> (on_stdout K chunk s, [])
      | StderrData chunk \<Rightarrow> (on_stderr K chunk s, [])
      | Close code \<Rightarrow> on_close K H code s
      | SpawnError err \<Rightarrow> on_error shellCmd err s
      | TimerElapsed \<Rightarrow>
          (if timerPending s then on_timeout H timeout (s\<lparr>timerPending := False\<rparr>) else (s, [])))"

text \<open>
  The events in order. A timer still pending when they are over elapses then, as a
  timer that nothing cleared does.
\<close>

fun feed :: "constants \<Rightarrow> host \<Rightarrow> jsnum \<Rightarrow> string \<Rightarrow> proc_event list \<Rightarrow> shell_state \<Rightarrow> shell_state \<times> effect list" where
  "feed K H timeout shellCmd [] s = (s, [])"
| "feed K H timeout shellCmd (ev # evs) s =
     (let (s1, effs1) = on_event K H timeout shellCmd ev s;
          (s2, effs2) = feed K H timeout shellCmd evs s1
      in (s2, effs1 @ effs2))"

definition deliver :: "constants \<Rightarrow> host \<Rightarrow> jsnum \<Rightarrow> string \<Rightarrow> proc_event list \<Rightarrow> shell_state \<Rightarrow> shell_state \<times> effect list" where
  "deliver K H timeout shellCmd evs s =
     (let (s1, effs1) = feed K H timeout shellCmd evs s;
          (s2, effs2) = on_event K H timeout shellCmd TimerElapsed s1
      in (s2, effs1 @ effs2))"

fun resolutions :: "effect list \<Rightarrow> CommandResult list" where
  "resolutions [] = []"
| "resolutions (Resolve r # effs) = r # resolutions effs"
| "resolutions (_ # effs) = resolutions effs"

text \<open>A promise takes the value of the first \<open>resolve\<close>, and stays pending without one.\<close>

definition promise_value :: "effect list \<Rightarrow> CommandResult outcome" where
  "promise_value effs = (case resolutions effs of [] \<Rightarrow> Pending | r # _ \<Rightarrow> Returns r)"

definition spawn_shell :: "constants \<Rightarrow> host \<Rightarrow> jsnum \<Rightarrow> string \<Rightarrow> string \<Rightarrow> proc_event list \<Rightarrow> CommandResult outcome \<times> effect list" where
  "spawn_shell K H timeout command cwd events =
     (let shellCmd = (if platform H = ''win32'' then ''cmd.exe'' else ''/bin/sh'');
          shellArgs = (if platform H = ''win32'' then [''/c'', command] else [''-c'', command]);
          effs = [Spawn shellCmd shellArgs cwd (buildSafeEnv H), SetTimeout timeout]
                   @ snd (deliver K H timeout shellCmd events initial_shell)
      in (promise_value effs, effs))"

definition executeShellCommand :: "constants \<Rightarrow> host \<Rightarrow> proc_event list \<Rightarrow> payload \<Rightarrow> CommandResult outcome \<times> effect list" where
  "executeShellCommand K H events payload =
     (case parseString (payload ''command'') of
        None \<Rightarrow> (Returns (failure ''No command specified''), [])
      | Some command \<Rightarrow>
          (case validateCommand command of
             Some validationError \<Rightarrow> (Returns (failure validationError), [])
           | None \<Rightarrow>
               (let rawTimeout = (case parseNumber (payload ''timeout'') of
                                    Some n \<Rightarrow> n | None \<Rightarrow> Finite (CMD_DEFAULT_TIMEOUT K))
                in if num_less rawTimeout 1 \<or> num_greater rawTimeout (MAX_CMD_TIMEOUT K)
                   then (Returns (failure (''Timeout must be between 1 and ''
                                           @ num_text H (Finite (MAX_CMD_TIMEOUT K)) @ ''ms'')), [])
                   else
                     (let timeout = rawTimeout;
                          cwd = (case parseString (payload ''cwd'') of Some c \<Rightarrow> c | None \<Rightarrow> homedir H)
                      in case validateFilePath H cwd of
                           Some cwdError \<Rightarrow> (Returns (failure cwdError), [])
                         | None \<Rightarrow> spawn_shell K H timeout command cwd events))))"

section \<open>The command executor\<close>

definition fileRead :: "constants \<Rightarrow> host \<Rightarrow> payload \<Rightarrow> CommandResult outcome \<times> effect list" where
  "fileRead K H payload =
     (case resolveAndValidatePath H payload None of
        Inl pathError \<Rightarrow> (Returns pathError, [])
      | Inr filePath \<Rightarrow>
          (case stat_size H filePath of
             Inl e \<Rightarrow> (Throws e, [])
           | Inr sz \<Rightarrow>
               (if sz > MAX_FILE_READ_SIZE K
                then (Returns (failure (''File too large: '' @ num_text H (Finite (real sz))
                         @ '' bytes (limit: '' @ num_text H (Finite (real (MAX_FILE_READ_SIZE K)))
                         @ '' bytes)'')), [])
                else (case readFile H filePath of
                        Inl e \<Rightarrow> (Throws e, [])
                      | Inr content \<Rightarrow> (Returns (succeeded (Text content)), [])))))"

definition fileWrite :: "constants \<Rightarrow> host \<Rightarrow> payload \<Rightarrow> CommandResult outcome \<times> effect list" where
  "fileWrite K H payload =
     (case resolveAndValidatePath H payload None of
        Inl pathError \<Rightarrow> (Returns pathError, [])
      | Inr filePath \<Rightarrow>
          (case (case payload ''content'' of JString c \<Rightarrow> Some c | _ \<Rightarrow> None) of
             None \<Rightarrow> (Returns (failure ''No content specified''), [])
           | Some content \<Rightarrow>
               (if length content > MAX_FILE_WRITE_SIZE K
                then (Returns (failure (''Content too large: '' @ num_text H (Finite (real (length content)))
                         @ '' bytes (limit: '' @ num_text H (Finite (real (MAX_FILE_WRITE_SIZE K)))
                         @ '' bytes)'')), [])
                else
                  (let dir = path_dirname H filePath;
                       made = (if truthy (payload ''createDirectories'') then mkdir H dir else Inr ());
                       effs1 = (if truthy (payload ''createDirectories'') then [Mkdir dir] else [])
                   in case made of
                        Inl e \<Rightarrow> (Throws e, effs1)
                      | Inr _ \<Rightarrow>
                          (case writeFile H filePath content of
                             Inl e \<Rightarrow> (Throws e, effs1 @ [WriteFile filePath content])
                           | Inr _ \<Rightarrow> (Returns (succeeded (Text (''Written to '' @ filePath))),
                                       effs1 @ [WriteFile filePath content]))))))"

definition list_item :: "host \<Rightarrow> string \<Rightarrow> string \<times> bool \<Rightarrow> string \<times> string \<times> nat \<times> string" where
  "list_item H dirPath entry =
     (let fullPath = path_join H dirPath (fst entry);
          type = (if snd entry then ''directory'' else ''file'')
      in case lstat H fullPath of
           Inr st \<Rightarrow> (fst entry, type, fst st, snd st)
         | Inl _ \<Rightarrow> (fst entry, type, 0, []))"

definition fileList :: "constants \<Rightarrow> host \<Rightarrow> payload \<Rightarrow> CommandResult outcome \<times> effect list" where
  "fileList K H payload =
     (case resolveAndValidatePath H payload (Some ''.'') of
        Inl pathError \<Rightarrow> (Returns pathError, [])
      | Inr dirPath \<Rightarrow>
          (case readdir H dirPath of
             Inl e \<Rightarrow> (Throws e, [])
           | Inr allEntries \<Rightarrow>
               (let truncated = length allEntries > MAX_DIR_ENTRIES K;
                    entries = take (MAX_DIR_ENTRIES K) allEntries;
                    items = map (list_item H dirPath) entries
                in (Returns (succeeded (Listing items truncated (length allEntries))), []))))"

definition processList :: "constants \<Rightarrow> host \<Rightarrow> proc_event list \<Rightarrow> CommandResult outcome \<times> effect list" where
  "processList K H events =
     (let command = (if platform H = ''win32'' then ''tasklist /fo csv /nh'' else ''ps aux'') in
      executeShellCommand K H events
        ((\<lambda>_. JUndefined)(''command'' := JString command,
                          ''timeout'' := JNumber (Finite (PROCESS_LIST_TIMEOUT K)))))"

definition ALLOWED_SIGNALS :: "string list" where
  "ALLOWED_SIGNALS = [''SIGTERM'', ''SIGUSR1'', ''SIGUSR2'', ''SIGINT'', ''SIGHUP'']"

fun join_with :: "string \<Rightarrow> string list \<Rightarrow> string" where
  "join_with sep [] = []"
| "join_with sep [x] = x"
| "join_with sep (x # y # ys) = x @ sep @ join_with sep (y # ys)"

text \<open>
  \<open>!pid || pid < 1 || !Number.isInteger(pid)\<close>, where \<open>pid\<close> is a number or \<open>null\<close>.
  Past this check \<open>pid\<close> is a number, which is what \<open>process.kill\<close> is called with.
\<close>

definition invalid_pid :: "jsnum option \<Rightarrow> bool" where
  "invalid_pid pid =
     (case pid of None \<Rightarrow> True | Some n \<Rightarrow> num_falsy n \<or> num_less n 1 \<or> \<not> isInteger n)"

definition processKill :: "host \<Rightarrow> payload \<Rightarrow> CommandResult outcome \<times> effect list" where
  "processKill H payload =
     (let pid = parseNumber (payload ''pid'') in
      if invalid_pid pid
      then (Returns (failure ''Invalid PID: must be a positive integer''), [])
      else
        (let signal = (case parseString (payload ''signal'') of Some s \<Rightarrow> s | None \<Rightarrow> ''SIGTERM'') in
         if signal \<notin> set ALLOWED_SIGNALS
         then (Returns (failure (''Signal not allowed: '' @ signal @ ''. Allowed: ''
                                 @ join_with '', '' ALLOWED_SIGNALS)), [])
         else (case pid of
                 None \<Rightarrow> (Returns (failure ''Invalid PID: must be a positive integer''), [])
               | Some n \<Rightarrow>
                   (case os_kill H n signal of
                      Inr _ \<Rightarrow> (Returns (succeeded (Text (''Sent '' @ signal @ '' to PID '' @ num_text H n))),
                                [ProcessKill n signal])
                    | Inl e \<Rightarrow> (Returns (failure (getErrorMessage e)), [ProcessKill n signal])))))"

text \<open>The dispatch on the type tag, inside the \<open>try\<close> whose \<open>catch\<close> turns a rejection into a result.\<close>

definition dispatch :: "constants \<Rightarrow> host \<Rightarrow> proc_event list \<Rightarrow> string \<Rightarrow> payload \<Rightarrow> CommandResult outcome \<times> effect list" where
  "dispatch K H events type payload =
     (if type = ''execute_command'' then executeShellCommand K H events payload
      else if type = ''file_read'' then fileRead K H payload
      else if type = ''file_write'' then fileWrite K H payload
      else if type = ''file_list'' then fileList K H payload
      else if type = ''process_list'' then processList K H events
      else if type = ''process_kill'' then processKill H payload
      else (Returns (failure (''Unknown command type: '' @ type)), []))"

definition executeCommand :: "constants \<Rightarrow> host \<Rightarrow> proc_event list \<Rightarrow> string \<Rightarrow> payload \<Rightarrow> CommandResult outcome \<times> effect list" where
  "executeCommand K H events type payload =
     (case dispatch K H events type payload of
        (Throws e, effs) \<Rightarrow> (Returns (failure (getErrorMessage e)), effs)
      | (r, effs) \<Rightarrow> (r, effs))"

section \<open>The agent runner\<close>

text \<open>
  The API client is a collaborator: each call answers from the state of the world
  \<open>'w\<close> outside the agent and may change it, and it may throw. The world also says
  what host the executor finds and what a child process spawned now would do.
\<close>

record 'w client =
  register :: "'w \<Rightarrow> (exn + string) \<times> 'w"
  heartbeat :: "'w \<Rightarrow> (exn + unit) \<times> 'w"
  getPendingCommands :: "'w \<Rightarrow> (exn + (string \<times> string) list) \<times> 'w"
  getCommand :: "string \<Rightarrow> 'w \<Rightarrow> (exn + string \<times> payload) \<times> 'w"
  submitResult :: "string \<Rightarrow> CommandResult \<Rightarrow> 'w \<Rightarrow> (exn + unit) \<times> 'w"
  machine :: "'w \<Rightarrow> host"
  child_events :: "'w \<Rightarrow> proc_event list"
  executed :: "effect list \<Rightarrow> 'w \<Rightarrow> 'w"

text \<open>
  What the runner does, in order: writes of the single-flight flag, network calls,
  executions (with what they did), and for a submission whether the call succeeded.
\<close>

datatype action =
    SetProcessing bool
  | NetRegister
  | NetHeartbeat
  | NetGetPending
  | NetGetCommand string
  | Run string "effect list"
  | NetSubmit string CommandResult bool

text \<open>The inner \<open>catch\<close>: the message goes back as a failure result; a second failure is only logged.\<close>

definition report_failure :: "'w client \<Rightarrow> string \<Rightarrow> exn \<Rightarrow> 'w \<Rightarrow> action list \<times> 'w" where
  "report_failure C commandId e w =
     (let message = getErrorMessage e in
      case submitResult C commandId (failure message) w of
        (Inr _, w1) \<Rightarrow> ([NetSubmit commandId (failure message) True], w1)
      | (Inl _, w1) \<Rightarrow> ([NetSubmit commandId (failure message) False], w1))"

text \<open>
  The body of the \<open>for\<close> loop for one command. The flag in the result says whether the
  body came to its end; it does not while an awaited promise stays pending.
\<close>

definition handle_command :: "constants \<Rightarrow> 'w client \<Rightarrow> string \<times> string \<Rightarrow> 'w \<Rightarrow> action list \<times> 'w \<times> bool" where
  "handle_command K C cmd w =
     (let commandId = fst cmd in
      case getCommand C commandId w of
        (Inl e, w1) \<Rightarrow>
          (let (acts, w2) = report_failure C commandId e w1 in (NetGetCommand commandId # acts, w2, True))
      | (Inr detail, w1) \<Rightarrow>
          (case executeCommand K (machine C w1) (child_events C w1) (fst detail) (snd detail) of
             (Pending, effs) \<Rightarrow> ([NetGetCommand commandId, Run commandId effs], executed C effs w1, False)
           | (Throws e, effs) \<Rightarrow>
               (let (acts, w2) = report_failure C commandId e (executed C effs w1) in
                ([NetGetCommand commandId, Run commandId effs] @ acts, w2, True))
           | (Returns result, effs) \<Rightarrow>
               (case submitResult C commandId result (executed C effs w1) of
                  (Inr _, w2) \<Rightarrow>
                    ([NetGetCommand commandId, Run commandId effs, NetSubmit commandId result True], w2, True)
                | (Inl e, w2) \<Rightarrow>
                    (let (acts, w3) = report_failure C commandId e w2 in
                     ([NetGetCommand commandId, Run commandId effs, NetSubmit commandId result False] @ acts,
                      w3, True)))))"

fun run_commands :: "constants \<Rightarrow> 'w client \<Rightarrow> (string \<times> string) list \<Rightarrow> 'w \<Rightarrow> action list \<times> 'w \<times> bool" where
  "run_commands K C [] w = ([], w, True)"
| "run_commands K C (cmd # pending) w =
     (case handle_command K C cmd w of
        (acts, w1, False) \<Rightarrow> (acts, w1, False)
      | (acts, w1, True) \<Rightarrow>
          (case run_commands K C pending w1 of (acts2, w2, finished) \<Rightarrow> (acts @ acts2, w2, finished)))"

text \<open>
  One call of \<open>pollCommands\<close> with the flag as it finds it: what it did, the world
  after it, and the flag as it leaves it.
\<close>

definition pollCommands :: "constants \<Rightarrow> 'w client \<Rightarrow> bool \<Rightarrow> 'w \<Rightarrow> action list \<times> 'w \<times> bool" where
  "pollCommands K C processing w =
     (if processing then ([], w, processing)
      else
        (case getPendingCommands C w of
           (Inl e, w1) \<Rightarrow> ([SetProcessing True, NetGetPending, SetProcessing False], w1, False)
         | (Inr pending, w1) \<Rightarrow>
             (case run_commands K C pending w1 of
                (acts, w2, finished) \<Rightarrow>
                  ([SetProcessing True, NetGetPending] @ acts
                     @ (if finished then [SetProcessing False] else []),
                   w2, \<not> finished))))"

subsection \<open>The life of one agent\<close>

text \<open>
  The variables \<open>startProjectAgent\<close> closes over, the interval timers alive in the
  runtime, and the log of what the agent did. \<open>startProjectAgent\<close> calls
  \<open>client.register\<close> at once and returns the handle while the call is awaited.
\<close>

record 'w agent =
  heartbeatTimer :: "nat option"
  pollTimer :: "nat option"
  processing :: bool
  registering :: bool
  intervals :: "nat list"
  next_handle :: nat
  world :: 'w
  history :: "action list"

definition startProjectAgent :: "'w \<Rightarrow> 'w agent" where
  "startProjectAgent w =
     \<lparr>heartbeatTimer = None, pollTimer = None, processing = False, registering = True,
      intervals = [], next_handle = 0, world = w, history = [NetRegister]\<rparr>"

definition sendHeartbeat :: "'w client \<Rightarrow> 'w agent \<Rightarrow> 'w agent" where
  "sendHeartbeat C a =
     a\<lparr>world := snd (heartbeat C (world a)), history := history a @ [NetHeartbeat]\<rparr>"

text \<open>\<open>registerAndStart\<close> from the point where the awaited \<open>register\<close> settles.\<close>

definition register_settles :: "'w client \<Rightarrow> 'w agent \<Rightarrow> 'w agent" where
  "register_settles C a =
     (if \<not> registering a then a
      else
        (case register C (world a) of
           (Inl e, w1) \<Rightarrow> a\<lparr>registering := False, world := w1\<rparr>
         | (Inr agentId, w1) \<Rightarrow>
             (let a1 = a\<lparr>registering := False, world := w1\<rparr>;
                  a2 = a1\<lparr>heartbeatTimer := Some (next_handle a1),
                          intervals := intervals a1 @ [next_handle a1],
                          next_handle := Suc (next_handle a1)\<rparr>;
                  a3 = sendHeartbeat C a2
              in a3\<lparr>pollTimer := Some (next_handle a3),
                     intervals := intervals a3 @ [next_handle a3],
                     next_handle := Suc (next_handle a3)\<rparr>)))"

definition clearInterval :: "nat \<Rightarrow> 'w agent \<Rightarrow> 'w agent" where
  "clearInterval h a = a\<lparr>intervals := removeAll h (intervals a)\<rparr>"

definition stop :: "'w agent \<Rightarrow> 'w agent" where
  "stop a =
     (let a1 = (case heartbeatTimer a of Some h \<Rightarrow> clearInterval h a | None \<Rightarrow> a)
      in case pollTimer a1 of Some h \<Rightarrow> clearInterval h a1 | None \<Rightarrow> a1)"

text \<open>An interval's callback runs only while the interval is alive.\<close>

definition heartbeat_due :: "'w client \<Rightarrow> 'w agent \<Rightarrow> 'w agent" where
  "heartbeat_due C a =
     (case heartbeatTimer a of
        Some h \<Rightarrow> (if h \<in> set (intervals a) then sendHeartbeat C a else a)
      | None \<Rightarrow> a)"

definition poll_due :: "constants \<Rightarrow> 'w client \<Rightarrow> 'w agent \<Rightarrow> 'w agent" where
  "poll_due K C a =
     (case pollTimer a of
        Some h \<Rightarrow>
          (if h \<in> set (intervals a)
           then (case pollCommands K C (processing a) (world a) of
                   (acts, w1, flag) \<Rightarrow> a\<lparr>processing := flag, world := w1, history := history a @ acts\<rparr>)
           else a)
      | None \<Rightarrow> a)"

datatype agent_event = RegisterSettles | StopCalled | HeartbeatDue | PollDue

fun agent_step :: "constants \<Rightarrow> 'w client \<Rightarrow> 'w agent \<Rightarrow> agent_event \<Rightarrow> 'w agent" where
  "agent_step K C a RegisterSettles = register_settles C a"
| "agent_step K C a StopCalled = stop a"
| "agent_step K C a HeartbeatDue = heartbeat_due C a"
| "agent_step K C a PollDue = poll_due K C a"

definition agent_run :: "constants \<Rightarrow> 'w client \<Rightarrow> 'w \<Rightarrow> agent_event list \<Rightarrow> 'w agent" where
  "agent_run K C w evs = foldl (agent_step K C) (startProjectAgent w) evs"

section \<open>A host and a server for the examples\<close>

text \<open>
  A small machine on which the theorems are run: a user in \<open>/home/user\<close>, a symbolic
  link \<open>/home/user/link\<close> to the file \<open>/etc/passwd\<close>, and a symbolic link
  \<open>/tmp/dangling\<close> to \<open>/home/user/.ssh/newkey\<close>, which does not exist. Its path
  functions cover the absolute paths the examples use.
\<close>

definition sample_constants :: constants where
  "sample_constants =
     \<lparr>CMD_DEFAULT_TIMEOUT = 60000, MAX_CMD_TIMEOUT = 600000, MAX_DIR_ENTRIES = 1000,
      MAX_FILE_READ_SIZE = 10485760, MAX_FILE_WRITE_SIZE = 10485760,
      MAX_OUTPUT_SIZE = 10485760, PROCESS_LIST_TIMEOUT = 10000\<rparr>"

definition sample_dirname :: "string \<Rightarrow> string" where
  "sample_dirname p =
     (let d = rev (drop 1 (dropWhile (\<lambda>c. c \<noteq> CHR ''/'') (rev p))) in if d = [] then ''/'' else d)"

definition sample_basename :: "string \<Rightarrow> string" where
  "sample_basename p = rev (takeWhile (\<lambda>c. c \<noteq> CHR ''/'') (rev p))"

definition sample_files :: "string list" where
  "sample_files = [''/'', ''/tmp'', ''/etc'', ''/etc/passwd'', ''/home'', ''/home/user'', ''/home/user/.ssh'']"

definition sample_links :: "string \<Rightarrow> string option" where
  "sample_links p =
     (if p = ''/home/user/link'' then Some ''/etc/passwd''
      else if p = ''/tmp/dangling'' then Some ''/home/user/.ssh/newkey''
      else None)"

text \<open>\<open>realpath\<close> follows a link to its target, and rejects when what it arrives at does not exist.\<close>

definition sample_realpath :: "string \<Rightarrow> string option" where
  "sample_realpath p =
     (case sample_links p of
        Some target \<Rightarrow> (if target \<in> set sample_files then Some target else None)
      | None \<Rightarrow> (if p \<in> set sample_files then Some p else None))"

text \<open>The text of a number, for the non-negative integers the examples print.\<close>

function decimal :: "nat \<Rightarrow> string" where
  "decimal n =
     (if n < 10 then [''0123456789'' ! n]
      else decimal (n div 10) @ [''0123456789'' ! (n mod 10)])"
  by pat_completeness auto
termination
  by (relation "measure id") auto

declare decimal.simps [simp del]

definition sample_num_text :: "jsnum \<Rightarrow> string" where
  "sample_num_text n =
     (case n of
        NaN \<Rightarrow> ''NaN''
      | NegInfinity \<Rightarrow> ''-Infinity''
      | PosInfinity \<Rightarrow> ''Infinity''
      | Finite x \<Rightarrow> (if 0 \<le> x \<and> real_of_int \<lfloor>x\<rfloor> = x then decimal (nat \<lfloor>x\<rfloor>) else ''?''))"

definition enoent :: exn where
  "enoent = Exn (Some ''ENOENT'') ''ENOENT: no such file or directory''"

definition sample_host :: host where
  "sample_host =
     \<lparr>realpath = sample_realpath,
      path_resolve = (\<lambda>p. if startsWith p ''/'' then p else ''/home/user/'' @ p),
      path_dirname = sample_dirname,
      path_basename = sample_basename,
      path_join = (\<lambda>a b. a @ ''/'' @ b),
      homedir = ''/home/user'',
      platform = ''linux'',
      environ = (\<lambda>k. if k = ''PATH'' then Some ''/usr/bin'' else if k = ''API_TOKEN'' then Some ''secret'' else None),
      stat_size = (\<lambda>p. if p = ''/etc/passwd'' then Inr 100 else Inl enoent),
      readFile = (\<lambda>p. if p = ''/etc/passwd'' then Inr ''root:x:0:0'' else Inl enoent),
      mkdir = (\<lambda>p. Inr ()),
      writeFile = (\<lambda>p c. Inr ()),
      readdir = (\<lambda>p. if p = ''/tmp'' then Inr [] else Inl enoent),
      lstat = (\<lambda>p. Inl enoent),
      os_kill = (\<lambda>pid signal. Inr ()),
      num_text = sample_num_text\<rparr>"

definition no_payload :: payload where
  "no_payload = (\<lambda>_. JUndefined)"

text \<open>
  A server whose state counts the calls made to it. It has two commands pending; the
  detail of the first cannot be fetched, the second has a type the agent does not know.
  A result submitted as the fifth call is lost.
\<close>

definition sample_client :: "nat client" where
  "sample_client =
     \<lparr>register = (\<lambda>w. (Inr ''agent-1'', Suc w)),
      heartbeat = (\<lambda>w. (Inr (), Suc w)),
      getPendingCommands = (\<lambda>w. (Inr [(''c1'', ''file_read''), (''c2'', ''reboot'')], Suc w)),
      getCommand = (\<lambda>commandId w.
         (if commandId = ''c1'' then Inl (Exn None ''network down'') else Inr (''reboot'', no_payload), Suc w)),
      submitResult = (\<lambda>commandId r w. (if w = 4 then Inl (Exn None ''socket hang up'') else Inr (), Suc w)),
      machine = (\<lambda>w. sample_host),
      child_events = (\<lambda>w. []),
      executed = (\<lambda>effs w. w)\<rparr>"

section \<open>Notions used to state the properties\<close>

text \<open>An event that carries output, and the bytes a run of events carries.\<close>

fun is_output :: "proc_event \<Rightarrow> bool" where
  "is_output (StdoutData chunk) = True"
| "is_output (StderrData chunk) = True"
| "is_output _ = False"

fun output_bytes :: "proc_event list \<Rightarrow> nat" where
  "output_bytes [] = 0"
| "output_bytes (StdoutData chunk # evs) = byte_length chunk + output_bytes evs"
| "output_bytes (StderrData chunk # evs) = byte_length chunk + output_bytes evs"
| "output_bytes (_ # evs) = output_bytes evs"

text \<open>Every chunk decodes to as many characters as it has bytes, as ASCII output does.\<close>

fun single_byte :: "proc_event \<Rightarrow> bool" where
  "single_byte (StdoutData chunk) = (length (to_text chunk) = byte_length chunk)"
| "single_byte (StderrData chunk) = (length (to_text chunk) = byte_length chunk)"
| "single_byte _ = True"

definition truncation_marker :: string where
  "truncation_marker = [CHR 0x0A] @ ''... [output truncated]''"

text \<open>The commands whose detail a cycle asked for, in order.\<close>

fun fetched :: "action list \<Rightarrow> string list" where
  "fetched [] = []"
| "fetched (NetGetCommand commandId # acts) = commandId # fetched acts"
| "fetched (_ # acts) = fetched acts"

section \<open>Properties\<close>

subsection \<open>Auxiliary facts\<close>

lemma startsWith_append: "startsWith (p @ s) p"
  by (induction p) auto

lemma startsWith_iff: "startsWith s p \<longleftrightarrow> (\<exists>t. s = p @ t)"
  by (induction s p rule: startsWith.induct) auto

lemma str_includes_start: "startsWith s p \<Longrightarrow> str_includes s p"
  by (cases s) auto

lemma str_includes_mid: "str_includes (a @ sub @ b) sub"
proof (induction a)
  case Nil
  show ?case by (simp add: str_includes_start startsWith_append)
next
  case (Cons x xs)
  then show ?case by simp
qed

lemma test_empty: "p \<in> set BLOCKED_COMMAND_PATTERNS \<Longrightarrow> \<not> test (fst p) []"
  by (auto simp: BLOCKED_COMMAND_PATTERNS_def test_def lits_def word_opt_def next_char_def)

lemma first_blocked_Some:
  "\<exists>p\<in>set ps. test (fst p) c \<Longrightarrow>
   \<exists>p\<in>set ps. test (fst p) c \<and> first_blocked ps c = Some (''Blocked dangerous command pattern: '' @ snd p)"
  by (induction ps) auto

lemma first_blocked_None: "(\<forall>p\<in>set ps. \<not> test (fst p) c) \<Longrightarrow> first_blocked ps c = None"
  by (induction ps) auto

lemma invalid_pid_iff:
  "invalid_pid (parseNumber v) \<longleftrightarrow> \<not> (\<exists>k. 1 \<le> k \<and> v = JNumber (Finite (real_of_int k)))"
proof (cases v)
  case (JNumber n)
  show ?thesis
  proof (cases n)
    case (Finite a)
    show ?thesis
    proof
      assume inv: "invalid_pid (parseNumber v)"
      show "\<not> (\<exists>k. 1 \<le> k \<and> v = JNumber (Finite (real_of_int k)))"
      proof
        assume "\<exists>k. 1 \<le> k \<and> v = JNumber (Finite (real_of_int k))"
        then obtain k where k: "1 \<le> k" "a = real_of_int k" using JNumber Finite by auto
        then show False using inv JNumber Finite by (auto simp: invalid_pid_def)
      qed
    next
      assume no: "\<not> (\<exists>k. 1 \<le> k \<and> v = JNumber (Finite (real_of_int k)))"
      show "invalid_pid (parseNumber v)"
      proof (rule ccontr)
        assume "\<not> invalid_pid (parseNumber v)"
        then have a: "\<not> a < 1" "real_of_int \<lfloor>a\<rfloor> = a"
          using JNumber Finite by (auto simp: invalid_pid_def)
        then have "1 \<le> \<lfloor>a\<rfloor>" by linarith
        then show False using no a JNumber Finite by metis
      qed
    qed
  qed (use JNumber in \<open>auto simp: invalid_pid_def\<close>)
qed (auto simp: invalid_pid_def)

lemmas regex_defs = BLOCKED_COMMAND_PATTERNS_def test_def lits_def is_space_def is_word_def
  is_dot_def is_lower_def word_opt_def next_char_def bsl_def

lemma spawn_shell_effects:
  "\<exists>sh args env rest. snd (spawn_shell K H timeout command cwd events) =
     Spawn sh args cwd env # SetTimeout timeout # rest"
  by (simp add: spawn_shell_def Let_def)

lemma ls_allowed: "validateCommand ''ls'' = None"
  by (simp add: validateCommand_def regex_defs)

lemma home_allowed: "validateFilePath sample_host ''/home/user'' = None"
  by (simp add: validateFilePath_def resolved_path_def sample_host_def sample_realpath_def
      sample_links_def sample_files_def BLOCKED_PATH_PREFIXES_def getSensitiveHomePaths_def without_trailing_slash_def)

lemma check_prefixes_hit:
  "pre \<in> set ps \<Longrightarrow> r = without_trailing_slash pre \<or> startsWith r pre \<Longrightarrow>
   \<exists>q\<in>set ps. check_prefixes r ps = Some (''Access denied: '' @ q @ '' paths are blocked'')"
  by (induction ps) (auto simp: Let_def)

lemma validateFilePath_denies:
  assumes "pre \<in> set (BLOCKED_PATH_PREFIXES @ getSensitiveHomePaths H)"
    and "resolved_path H p @ ''/'' = pre \<or> startsWith (resolved_path H p) pre"
  shows "\<exists>e. validateFilePath H p = Some e \<and> startsWith e ''Access denied''"
proof -
  have "resolved_path H p = without_trailing_slash pre \<or> startsWith (resolved_path H p) pre"
    using assms(2) by (auto simp: without_trailing_slash_def)
  from check_prefixes_hit [OF assms(1) this]
  obtain q where "validateFilePath H p = Some (''Access denied'' @ '': '' @ q @ '' paths are blocked'')"
    by (auto simp: validateFilePath_def)
  then show ?thesis using startsWith_append by blast
qed

lemmas sample_fs_defs = sample_host_def sample_realpath_def sample_links_def sample_files_def
  sample_dirname_def sample_basename_def

subsection \<open>The shell runner's latch and buffers\<close>

lemma resolutions_append: "resolutions (a @ b) = resolutions a @ resolutions b"
  by (induction a rule: resolutions.induct) auto

lemma feed_append:
  "feed K H t sh (xs @ ys) s =
     (let (s1, e1) = feed K H t sh xs s; (s2, e2) = feed K H t sh ys s1 in (s2, e1 @ e2))"
  by (induction xs arbitrary: s) (auto simp: Let_def split: prod.splits)

text \<open>The latch: a callback resolves only when the flag is down, and then raises it.\<close>

lemma on_event_latch:
  assumes "on_event K H t sh ev s = (s', effs)" and "\<not> resolved s \<longrightarrow> timerPending s"
  shows "(\<not> resolved s' \<longrightarrow> timerPending s') \<and> (resolved s \<longrightarrow> resolved s') \<and>
         length (resolutions effs) = (if \<not> resolved s \<and> resolved s' then 1 else 0)"
  using assms
  by (cases ev)
     (auto simp: on_event_def on_stdout_def on_stderr_def on_close_def on_error_def on_timeout_def
        Let_def split: if_splits)

lemma feed_latch:
  "feed K H t sh evs s = (s', effs) \<Longrightarrow> \<not> resolved s \<longrightarrow> timerPending s \<Longrightarrow>
   (\<not> resolved s' \<longrightarrow> timerPending s') \<and> (resolved s \<longrightarrow> resolved s') \<and>
   length (resolutions effs) = (if \<not> resolved s \<and> resolved s' then 1 else 0)"
proof (induction evs arbitrary: s s' effs)
  case Nil
  then show ?case by auto
next
  case (Cons ev evs)
  obtain s1 e1 where 1: "on_event K H t sh ev s = (s1, e1)" by (cases "on_event K H t sh ev s")
  obtain s2 e2 where 2: "feed K H t sh evs s1 = (s2, e2)" by (cases "feed K H t sh evs s1")
  have eq: "s' = s2" "effs = e1 @ e2" using Cons.prems(1) 1 2 by auto
  note a = on_event_latch [OF 1 Cons.prems(2)]
  note b = Cons.IH [OF 2 a [THEN conjunct1]]
  show ?case using a b unfolding eq by (auto simp: resolutions_append split: if_splits)
qed

lemma deliver_once:
  "length (resolutions (snd (deliver K H t sh evs initial_shell))) = 1"
proof -
  obtain s1 e1 where 1: "feed K H t sh evs initial_shell = (s1, e1)"
    by (cases "feed K H t sh evs initial_shell")
  obtain s2 e2 where 2: "on_event K H t sh TimerElapsed s1 = (s2, e2)"
    by (cases "on_event K H t sh TimerElapsed s1")
  have i: "\<not> resolved initial_shell \<longrightarrow> timerPending initial_shell" by (simp add: initial_shell_def)
  note a = feed_latch [OF 1 i]
  note b = on_event_latch [OF 2 a [THEN conjunct1]]
  have "resolved s2"
    using 2 a by (auto simp: on_event_def on_timeout_def split: if_splits)
  then have "length (resolutions (e1 @ e2)) = 1"
    using a b by (auto simp: resolutions_append initial_shell_def split: if_splits)
  then show ?thesis using 1 2 by (simp add: deliver_def)
qed

lemma spawn_shell_once:
  "length (resolutions (snd (spawn_shell K H t command cwd events))) = 1"
  using deliver_once by (simp add: spawn_shell_def Let_def)

lemma spawn_shell_returns:
  "\<exists>r. fst (spawn_shell K H t command cwd events) = Returns r"
proof -
  let ?effs = "snd (spawn_shell K H t command cwd events)"
  have "length (resolutions ?effs) = 1" by (rule spawn_shell_once)
  then obtain r where "resolutions ?effs = [r]" by (cases "resolutions ?effs") auto
  moreover have "fst (spawn_shell K H t command cwd events) = promise_value ?effs"
    by (simp add: spawn_shell_def Let_def)
  ultimately show ?thesis by (simp add: promise_value_def)
qed

text \<open>Output events only fill the buffers.\<close>

lemma feed_output:
  "\<forall>e\<in>set pre. is_output e \<Longrightarrow>
   snd (feed K H t sh pre s) = [] \<and>
   resolved (fst (feed K H t sh pre s)) = resolved s \<and>
   timerPending (fst (feed K H t sh pre s)) = timerPending s \<and>
   outputSize (fst (feed K H t sh pre s)) = outputSize s + output_bytes pre"
proof (induction pre arbitrary: s)
  case Nil
  then show ?case by simp
next
  case (Cons ev pre)
  then show ?case
    by (cases ev) (auto simp: on_event_def on_stdout_def on_stderr_def Let_def split: prod.splits)
qed

lemma resolutions_clear: "set l \<subseteq> {ClearTimeout} \<Longrightarrow> resolutions l = []"
  by (induction l rule: resolutions.induct) auto

lemma on_event_resolved:
  "resolved s \<Longrightarrow> resolved (fst (on_event K H t sh ev s)) \<and> set (snd (on_event K H t sh ev s)) \<subseteq> {ClearTimeout}"
  by (cases ev)
     (auto simp: on_event_def on_stdout_def on_stderr_def on_close_def on_error_def on_timeout_def Let_def)

lemma feed_resolved:
  "resolved s \<Longrightarrow> resolved (fst (feed K H t sh evs s)) \<and> set (snd (feed K H t sh evs s)) \<subseteq> {ClearTimeout}"
proof (induction evs arbitrary: s)
  case Nil
  then show ?case by simp
next
  case (Cons ev evs)
  note a = on_event_resolved [OF Cons.prems, of K H t sh ev]
  note b = Cons.IH [OF a [THEN conjunct1]]
  show ?case using a b by (auto simp: Let_def split: prod.splits)
qed

lemma deliver_resolved:
  "resolved s \<Longrightarrow> set (snd (deliver K H t sh evs s)) \<subseteq> {ClearTimeout}"
proof -
  assume r: "resolved s"
  note a = feed_resolved [OF r, of K H t sh evs]
  note b = on_event_resolved [OF a [THEN conjunct1], of K H t sh TimerElapsed]
  show ?thesis using a b by (auto simp: deliver_def Let_def split: prod.splits)
qed

lemma deliver_Cons:
  "deliver K H t sh (ev # evs) s =
     (let (s1, e1) = on_event K H t sh ev s; (s2, e2) = deliver K H t sh evs s1 in (s2, e1 @ e2))"
  by (simp add: deliver_def Let_def split: prod.splits)

lemma deliver_append:
  "deliver K H t sh (xs @ ys) s =
     (let (s1, e1) = feed K H t sh xs s; (s2, e2) = deliver K H t sh ys s1 in (s2, e1 @ e2))"
  by (simp add: deliver_def feed_append Let_def split: prod.splits)

text \<open>After output only, the first completion event decides; what follows adds at most \<open>clearTimeout\<close>.\<close>

lemma deliver_first:
  assumes "\<forall>e\<in>set pre. is_output e"
    and "on_event K H t sh ev (fst (feed K H t sh pre initial_shell)) = (s1, e1)"
    and "resolved s1"
  shows "\<exists>later. snd (deliver K H t sh (pre @ ev # rest) initial_shell) = e1 @ later \<and>
           set later \<subseteq> {ClearTimeout}"
proof -
  note o = feed_output [OF assms(1), of K H t sh initial_shell]
  have "snd (deliver K H t sh (pre @ ev # rest) initial_shell) = e1 @ snd (deliver K H t sh rest s1)"
    using o assms(2) by (auto simp: deliver_append deliver_Cons Let_def split: prod.splits)
  then show ?thesis using deliver_resolved [OF assms(3)] by blast
qed

lemma promise_value_first:
  "set later \<subseteq> {ClearTimeout} \<Longrightarrow>
   promise_value (Spawn a b c d # SetTimeout t # ClearTimeout # Resolve r # later) = Returns r"
  "set later \<subseteq> {ClearTimeout} \<Longrightarrow>
   promise_value (Spawn a b c d # SetTimeout t # ChildKill k # Resolve r # later) = Returns r"
  by (simp_all add: promise_value_def)

lemma completion_paths:
  "length (resolutions (snd (spawn_shell K H t command cwd events))) = 1
   \<and> ((\<forall>e\<in>set pre. is_output e) \<and>
       sh = (if platform H = ''win32'' then ''cmd.exe'' else ''/bin/sh'') \<and>
       s = fst (feed K H t sh pre initial_shell) \<longrightarrow>
       (fst (spawn_shell K H t command cwd (pre @ TimerElapsed # rest)) =
          Returns (failure (''Command timed out after '' @ num_text H t @ ''ms'')) \<and>
        ChildKill ''SIGKILL'' \<in> set (snd (spawn_shell K H t command cwd (pre @ TimerElapsed # rest))))
     \<and> (fst (spawn_shell K H t command cwd (pre @ Close code # rest)) =
          Returns \<lparr>success = (code = Some 0),
                   data = Some (Text (stdout s @ (if outputSize s > MAX_OUTPUT_SIZE K then truncation_marker else []))),
                   error = (if code = Some 0 then None
                            else Some (if stderr s \<noteq> [] then stderr s
                                       else ''Process exited with code '' @ exit_code_text H code))\<rparr> \<and>
        ClearTimeout \<in> set (snd (spawn_shell K H t command cwd (pre @ Close code # rest))) \<and>
        ChildKill ''SIGKILL'' \<notin> set (snd (spawn_shell K H t command cwd (pre @ Close code # rest))))
     \<and> (fst (spawn_shell K H t command cwd (pre @ SpawnError err # rest)) =
          Returns (failure (if exn_code err = Some ''ENOENT'' then ''Command not found: '' @ sh
                            else if exn_code err = Some ''EACCES'' then ''Permission denied: '' @ sh
                            else exn_message err)) \<and>
        ClearTimeout \<in> set (snd (spawn_shell K H t command cwd (pre @ SpawnError err # rest))) \<and>
        ChildKill ''SIGKILL'' \<notin> set (snd (spawn_shell K H t command cwd (pre @ SpawnError err # rest))))
     \<and> fst (spawn_shell K H t command cwd pre) =
          Returns (failure (''Command timed out after '' @ num_text H t @ ''ms'')))"
proof (intro conjI impI)
  show "length (resolutions (snd (spawn_shell K H t command cwd events))) = 1"
    by (rule spawn_shell_once)
next
  assume a: "(\<forall>e\<in>set pre. is_output e) \<and>
       sh = (if platform H = ''win32'' then ''cmd.exe'' else ''/bin/sh'') \<and>
       s = fst (feed K H t sh pre initial_shell)"
  then have out: "\<forall>e\<in>set pre. is_output e" and s: "s = fst (feed K H t sh pre initial_shell)"
    and sh: "sh = (if platform H = ''win32'' then ''cmd.exe'' else ''/bin/sh'')" by auto
  note o = feed_output [OF out, of K H t sh initial_shell]
  have fresh: "\<not> resolved s" "timerPending s"
    using o s by (simp_all add: initial_shell_def)
  have effs: "snd (spawn_shell K H t command cwd evs) =
      Spawn sh (if platform H = ''win32'' then [''/c'', command] else [''-c'', command]) cwd (buildSafeEnv H)
        # SetTimeout t # snd (deliver K H t sh evs initial_shell)"
    and val: "fst (spawn_shell K H t command cwd evs) = promise_value (snd (spawn_shell K H t command cwd evs))"
    for evs
    using sh by (simp_all add: spawn_shell_def Let_def)
  let ?timed = "failure (''Command timed out after '' @ num_text H t @ ''ms'')"
  have timer: "on_event K H t sh TimerElapsed s = (s\<lparr>timerPending := False, resolved := True\<rparr>,
      [ChildKill ''SIGKILL'', Resolve ?timed])"
    using fresh by (simp add: on_event_def on_timeout_def)
  from deliver_first [OF out timer [unfolded s], of rest]
  obtain later where l1: "snd (deliver K H t sh (pre @ TimerElapsed # rest) initial_shell) =
      [ChildKill ''SIGKILL'', Resolve ?timed] @ later" "set later \<subseteq> {ClearTimeout}" by auto
  show "fst (spawn_shell K H t command cwd (pre @ TimerElapsed # rest)) = Returns ?timed"
    unfolding val effs l1(1) using promise_value_first(2) [OF l1(2)] by simp
  show "ChildKill ''SIGKILL'' \<in> set (snd (spawn_shell K H t command cwd (pre @ TimerElapsed # rest)))"
    unfolding effs l1(1) by simp
  let ?r = "\<lparr>success = (code = Some 0),
             data = Some (Text (stdout s @ (if outputSize s > MAX_OUTPUT_SIZE K then truncation_marker else []))),
             error = (if code = Some 0 then None
                      else Some (if stderr s \<noteq> [] then stderr s
                                 else ''Process exited with code '' @ exit_code_text H code))\<rparr>"
  have close: "on_event K H t sh (Close code) s = (s\<lparr>timerPending := False, resolved := True\<rparr>,
      [ClearTimeout, Resolve ?r])"
    using fresh by (simp add: on_event_def on_close_def Let_def truncation_marker_def)
  from deliver_first [OF out close [unfolded s], of rest]
  obtain later2 where l2: "snd (deliver K H t sh (pre @ Close code # rest) initial_shell) =
      [ClearTimeout, Resolve ?r] @ later2" "set later2 \<subseteq> {ClearTimeout}"
    unfolding s by auto
  show "fst (spawn_shell K H t command cwd (pre @ Close code # rest)) = Returns ?r"
    unfolding val effs l2(1) using promise_value_first(1) [OF l2(2)] by simp
  show "ClearTimeout \<in> set (snd (spawn_shell K H t command cwd (pre @ Close code # rest)))"
    unfolding effs l2(1) by simp
  show "ChildKill ''SIGKILL'' \<notin> set (snd (spawn_shell K H t command cwd (pre @ Close code # rest)))"
    unfolding effs l2(1) using l2(2) by auto
  let ?e = "failure (if exn_code err = Some ''ENOENT'' then ''Command not found: '' @ sh
                     else if exn_code err = Some ''EACCES'' then ''Permission denied: '' @ sh
                     else exn_message err)"
  have err: "on_event K H t sh (SpawnError err) s = (s\<lparr>timerPending := False, resolved := True\<rparr>,
      [ClearTimeout, Resolve ?e])"
    using fresh by (simp add: on_event_def on_error_def Let_def)
  from deliver_first [OF out err [unfolded s], of rest]
  obtain later3 where l3: "snd (deliver K H t sh (pre @ SpawnError err # rest) initial_shell) =
      [ClearTimeout, Resolve ?e] @ later3" "set later3 \<subseteq> {ClearTimeout}" by auto
  show "fst (spawn_shell K H t command cwd (pre @ SpawnError err # rest)) = Returns ?e"
    unfolding val effs l3(1) using promise_value_first(1) [OF l3(2)] by simp
  show "ClearTimeout \<in> set (snd (spawn_shell K H t command cwd (pre @ SpawnError err # rest)))"
    unfolding effs l3(1) by simp
  show "ChildKill ''SIGKILL'' \<notin> set (snd (spawn_shell K H t command cwd (pre @ SpawnError err # rest)))"
    unfolding effs l3(1) using l3(2) by auto
  have "snd (deliver K H t sh pre initial_shell) = [ChildKill ''SIGKILL'', Resolve ?timed]"
    using o timer s by (auto simp: deliver_def Let_def split: prod.splits)
  then show "fst (spawn_shell K H t command cwd pre) = Returns ?timed"
    unfolding val effs by (simp add: promise_value_def)
qed

lemmas shell_defs = on_event_def on_stdout_def on_stderr_def on_close_def on_error_def on_timeout_def
  initial_shell_def

lemma feed_over:
  "\<forall>e\<in>set pre. is_output e \<Longrightarrow> outputSize s > MAX_OUTPUT_SIZE K \<Longrightarrow>
   stdout (fst (feed K H t sh pre s)) = stdout s \<and> stderr (fst (feed K H t sh pre s)) = stderr s"
proof (induction pre arbitrary: s)
  case Nil
  then show ?case by simp
next
  case (Cons ev pre)
  then show ?case
    by (cases ev) (auto simp: on_event_def on_stdout_def on_stderr_def Let_def split: prod.splits)
qed

lemma feed_captured:
  "\<forall>e\<in>set pre. is_output e \<and> single_byte e \<Longrightarrow>
   length (stdout s) + length (stderr s) \<le> MAX_OUTPUT_SIZE K \<and>
   (outputSize s \<le> MAX_OUTPUT_SIZE K \<longrightarrow> length (stdout s) + length (stderr s) = outputSize s) \<Longrightarrow>
   length (stdout (fst (feed K H t sh pre s))) + length (stderr (fst (feed K H t sh pre s))) \<le> MAX_OUTPUT_SIZE K \<and>
   (outputSize (fst (feed K H t sh pre s)) \<le> MAX_OUTPUT_SIZE K \<longrightarrow>
      length (stdout (fst (feed K H t sh pre s))) + length (stderr (fst (feed K H t sh pre s))) =
        outputSize (fst (feed K H t sh pre s)))"
proof (induction pre arbitrary: s)
  case Nil
  then show ?case by simp
next
  case (Cons ev pre)
  obtain s1 e1 where 1: "on_event K H t sh ev s = (s1, e1)" by (cases "on_event K H t sh ev s")
  have step: "length (stdout s1) + length (stderr s1) \<le> MAX_OUTPUT_SIZE K \<and>
     (outputSize s1 \<le> MAX_OUTPUT_SIZE K \<longrightarrow> length (stdout s1) + length (stderr s1) = outputSize s1)"
    using Cons.prems 1
    by (cases ev) (auto simp: on_event_def on_stdout_def on_stderr_def Let_def split: if_splits)
  have "\<forall>e\<in>set pre. is_output e \<and> single_byte e" using Cons.prems(1) by simp
  from Cons.IH [OF this step] show ?case using 1 by (auto simp: Let_def split: prod.splits)
qed

subsection \<open>The executor settles, and the poll cycle ends\<close>

lemma executeShellCommand_returns:
  "\<exists>r. fst (executeShellCommand K H events payload) = Returns r"
  using spawn_shell_returns
  by (auto simp: executeShellCommand_def Let_def split: option.splits)

lemma dispatch_settles: "fst (dispatch K H events type payload) \<noteq> Pending"
proof -
  have "fst (executeShellCommand K H events p) \<noteq> Pending" for p
    using executeShellCommand_returns [of K H events p] by auto
  moreover have "fst (fileRead K H payload) \<noteq> Pending"
    by (auto simp: fileRead_def split: sum.splits)
  moreover have "fst (fileWrite K H payload) \<noteq> Pending"
    by (auto simp: fileWrite_def Let_def split: sum.splits option.splits)
  moreover have "fst (fileList K H payload) \<noteq> Pending"
    by (auto simp: fileList_def Let_def split: sum.splits)
  moreover have "fst (processKill H payload) \<noteq> Pending"
    by (auto simp: processKill_def Let_def split: sum.splits option.splits)
  ultimately show ?thesis by (simp add: dispatch_def processList_def Let_def)
qed

lemma executeCommand_returns:
  "\<exists>r effs. executeCommand K H events type payload = (Returns r, effs)"
proof -
  obtain x effs where d: "dispatch K H events type payload = (x, effs)"
    by (cases "dispatch K H events type payload")
  then have "x \<noteq> Pending" using dispatch_settles [of K H events type payload] by simp
  then show ?thesis using d by (cases x) (auto simp: executeCommand_def)
qed

lemma fetched_append: "fetched (a @ b) = fetched a @ fetched b"
  by (induction a rule: fetched.induct) auto

lemma report_failure_shape:
  "\<exists>ok w'. report_failure C commandId e w = ([NetSubmit commandId (failure (getErrorMessage e)) ok], w') \<and>
     ((\<forall>i r v. \<exists>v'. submitResult C i r v = (Inr (), v')) \<longrightarrow> ok)"
proof (cases "submitResult C commandId (failure (getErrorMessage e)) w")
  case (Pair x w1)
  show ?thesis
  proof (cases x)
    case (Inl a)
    have "\<not> (\<forall>i r v. \<exists>v'. submitResult C i r v = (Inr (), v'))"
    proof
      assume "\<forall>i r v. \<exists>v'. submitResult C i r v = (Inr (), v')"
      then obtain v' where "submitResult C commandId (failure (getErrorMessage e)) w = (Inr (), v')"
        by blast
      then show False using Pair Inl by simp
    qed
    moreover have "report_failure C commandId e w = ([NetSubmit commandId (failure (getErrorMessage e)) False], w1)"
      using Pair Inl by (simp add: report_failure_def Let_def)
    ultimately show ?thesis by blast
  next
    case (Inr b)
    then have "report_failure C commandId e w = ([NetSubmit commandId (failure (getErrorMessage e)) True], w1)"
      using Pair by (simp add: report_failure_def Let_def)
    then show ?thesis by blast
  qed
qed

text \<open>The body of the loop comes to its end for every command, and asks to submit a result.\<close>

lemma handle_command_shape:
  "\<exists>acts w'. handle_command K C cmd w = (acts, w', True) \<and> fetched acts = [fst cmd] \<and>
     (\<exists>r ok. NetSubmit (fst cmd) r ok \<in> set acts) \<and>
     (\<forall>b. SetProcessing b \<notin> set acts) \<and>
     ((\<forall>i r v. \<exists>v'. submitResult C i r v = (Inr (), v')) \<longrightarrow> (\<exists>r. NetSubmit (fst cmd) r True \<in> set acts))"
proof -
  let ?T = "\<forall>i r v. \<exists>v'. submitResult C i r v = (Inr (), v')"
  let ?id = "fst cmd"
  have goal: "\<exists>acts w'. handle_command K C cmd w = (acts, w', True) \<and> fetched acts = [?id] \<and>
     (\<exists>r ok. NetSubmit ?id r ok \<in> set acts) \<and> (\<forall>b. SetProcessing b \<notin> set acts) \<and>
     (?T \<longrightarrow> (\<exists>r. NetSubmit ?id r True \<in> set acts))"
    if eq: "handle_command K C cmd w = (acts, w', True)" and f: "fetched acts = [?id]"
      and s: "NetSubmit ?id r ok \<in> set acts" and n: "\<forall>b. SetProcessing b \<notin> set acts"
      and t: "?T \<longrightarrow> NetSubmit ?id r' True \<in> set acts"
    for acts w' r ok r'
  proof (intro exI conjI)
    show "handle_command K C cmd w = (acts, w', True)" by (rule eq)
    show "fetched acts = [?id]" by (rule f)
    show "NetSubmit ?id r ok \<in> set acts" by (rule s)
    show "\<forall>b. SetProcessing b \<notin> set acts" by (rule n)
    show "?T \<longrightarrow> (\<exists>r. NetSubmit ?id r True \<in> set acts)" using t by blast
  qed
  obtain x w1 where gc: "getCommand C ?id w = (x, w1)" by (cases "getCommand C ?id w")
  show ?thesis
  proof (cases x)
    case (Inl e)
    obtain ok w2 where r: "report_failure C ?id e w1 = ([NetSubmit ?id (failure (getErrorMessage e)) ok], w2)"
      "?T \<longrightarrow> ok"
      using report_failure_shape [of C ?id e w1] by blast
    let ?acts = "[NetGetCommand ?id, NetSubmit ?id (failure (getErrorMessage e)) ok]"
    have eq: "handle_command K C cmd w = (?acts, w2, True)"
      using gc Inl r(1) by (simp add: handle_command_def Let_def)
    have t: "?T \<longrightarrow> NetSubmit ?id (failure (getErrorMessage e)) True \<in> set ?acts"
      using r(2) by simp
    show ?thesis
      by (rule goal [OF eq _ _ _ t, of "failure (getErrorMessage e)" ok]) simp_all
  next
    case (Inr detail)
    obtain res effs where ex: "executeCommand K (machine C w1) (child_events C w1) (fst detail) (snd detail) =
        (Returns res, effs)"
      using executeCommand_returns by blast
    obtain y w2 where sub: "submitResult C ?id res (executed C effs w1) = (y, w2)"
      by (cases "submitResult C ?id res (executed C effs w1)")
    show ?thesis
    proof (cases y)
      case (Inl e)
      obtain ok w3 where r: "report_failure C ?id e w2 = ([NetSubmit ?id (failure (getErrorMessage e)) ok], w3)"
        "?T \<longrightarrow> ok"
        using report_failure_shape [of C ?id e w2] by blast
      let ?acts = "[NetGetCommand ?id, Run ?id effs, NetSubmit ?id res False,
            NetSubmit ?id (failure (getErrorMessage e)) ok]"
      have eq: "handle_command K C cmd w = (?acts, w3, True)"
        using gc \<open>x = Inr detail\<close> ex sub Inl r(1) by (simp add: handle_command_def Let_def)
      have t: "?T \<longrightarrow> NetSubmit ?id (failure (getErrorMessage e)) True \<in> set ?acts"
        using r(2) by simp
      show ?thesis
        by (rule goal [OF eq _ _ _ t, of res False]) simp_all
    next
      case (Inr u)
      let ?acts = "[NetGetCommand ?id, Run ?id effs, NetSubmit ?id res True]"
      have eq: "handle_command K C cmd w = (?acts, w2, True)"
        using gc \<open>x = Inr detail\<close> ex sub Inr by (simp add: handle_command_def Let_def)
      have t: "?T \<longrightarrow> NetSubmit ?id res True \<in> set ?acts" by simp
      show ?thesis
        by (rule goal [OF eq _ _ _ t, of res True]) simp_all
    qed
  qed
qed

lemma run_commands_shape:
  "\<exists>acts w'. run_commands K C pending w = (acts, w', True) \<and> fetched acts = map fst pending \<and>
     (\<forall>cmd\<in>set pending. \<exists>r ok. NetSubmit (fst cmd) r ok \<in> set acts) \<and>
     (\<forall>b. SetProcessing b \<notin> set acts) \<and>
     ((\<forall>i r v. \<exists>v'. submitResult C i r v = (Inr (), v')) \<longrightarrow>
        (\<forall>cmd\<in>set pending. \<exists>r. NetSubmit (fst cmd) r True \<in> set acts))"
proof (induction pending arbitrary: w)
  case Nil
  then show ?case by simp
next
  case (Cons cmd pending)
  obtain a1 w1 where h: "handle_command K C cmd w = (a1, w1, True)" "fetched a1 = [fst cmd]"
    "\<exists>r ok. NetSubmit (fst cmd) r ok \<in> set a1" "\<forall>b. SetProcessing b \<notin> set a1"
    "(\<forall>i r v. \<exists>v'. submitResult C i r v = (Inr (), v')) \<longrightarrow> (\<exists>r. NetSubmit (fst cmd) r True \<in> set a1)"
    using handle_command_shape [of K C cmd w] by blast
  obtain a2 w2 where r: "run_commands K C pending w1 = (a2, w2, True)" "fetched a2 = map fst pending"
    "\<forall>c\<in>set pending. \<exists>r ok. NetSubmit (fst c) r ok \<in> set a2" "\<forall>b. SetProcessing b \<notin> set a2"
    "(\<forall>i r v. \<exists>v'. submitResult C i r v = (Inr (), v')) \<longrightarrow>
        (\<forall>c\<in>set pending. \<exists>r. NetSubmit (fst c) r True \<in> set a2)"
    using Cons.IH [of w1] by blast
  have "run_commands K C (cmd # pending) w = (a1 @ a2, w2, True)"
    using h(1) r(1) by simp
  moreover have "fetched (a1 @ a2) = map fst (cmd # pending)"
    using h(2) r(2) by (simp add: fetched_append)
  moreover have "\<forall>c\<in>set (cmd # pending). \<exists>r ok. NetSubmit (fst c) r ok \<in> set (a1 @ a2)"
    using h(3) r(3) by (simp add: Bex_def) blast
  moreover have "\<forall>b. SetProcessing b \<notin> set (a1 @ a2)"
    using h(4) r(4) by auto
  moreover have "(\<forall>i r v. \<exists>v'. submitResult C i r v = (Inr (), v')) \<longrightarrow>
        (\<forall>c\<in>set (cmd # pending). \<exists>r. NetSubmit (fst c) r True \<in> set (a1 @ a2))"
    using h(5) r(5) by (simp add: Bex_def) blast
  ultimately show ?case by blast
qed

lemma pollCommands_shape:
  "\<exists>acts w'. pollCommands K C False w =
       (SetProcessing True # NetGetPending # acts @ [SetProcessing False], w', False) \<and>
     (\<forall>b. SetProcessing b \<notin> set acts) \<and>
     (\<forall>pending w1. getPendingCommands C w = (Inr pending, w1) \<longrightarrow>
        fetched acts = map fst pending \<and>
        (\<forall>cmd\<in>set pending. \<exists>r ok. NetSubmit (fst cmd) r ok \<in> set acts) \<and>
        ((\<forall>i r v. \<exists>v'. submitResult C i r v = (Inr (), v')) \<longrightarrow>
           (\<forall>cmd\<in>set pending. \<exists>r. NetSubmit (fst cmd) r True \<in> set acts)))"
proof -
  obtain x w1 where g: "getPendingCommands C w = (x, w1)" by (cases "getPendingCommands C w")
  show ?thesis
  proof (cases x)
    case (Inl e)
    then have "pollCommands K C False w =
        (SetProcessing True # NetGetPending # [] @ [SetProcessing False], w1, False)"
      using g by (simp add: pollCommands_def)
    moreover have "\<forall>b. SetProcessing b \<notin> set []" by simp
    moreover have "\<forall>pending w1. getPendingCommands C w = (Inr pending, w1) \<longrightarrow>
        fetched [] = map fst pending \<and>
        (\<forall>cmd\<in>set pending. \<exists>r ok. NetSubmit (fst cmd) r ok \<in> set []) \<and>
        ((\<forall>i r v. \<exists>v'. submitResult C i r v = (Inr (), v')) \<longrightarrow>
           (\<forall>cmd\<in>set pending. \<exists>r. NetSubmit (fst cmd) r True \<in> set []))"
      using g Inl by simp
    ultimately show ?thesis by blast
  next
    case (Inr pending)
    obtain acts w2 where r: "run_commands K C pending w1 = (acts, w2, True)"
      "fetched acts = map fst pending"
      "\<forall>cmd\<in>set pending. \<exists>r ok. NetSubmit (fst cmd) r ok \<in> set acts"
      "\<forall>b. SetProcessing b \<notin> set acts"
      "(\<forall>i r v. \<exists>v'. submitResult C i r v = (Inr (), v')) \<longrightarrow>
        (\<forall>cmd\<in>set pending. \<exists>r. NetSubmit (fst cmd) r True \<in> set acts)"
      using run_commands_shape [of K C pending w1] by blast
    have "pollCommands K C False w =
        (SetProcessing True # NetGetPending # acts @ [SetProcessing False], w2, False)"
      using g Inr r(1) by (simp add: pollCommands_def)
    moreover have "\<forall>p v. getPendingCommands C w = (Inr p, v) \<longrightarrow>
        fetched acts = map fst p \<and>
        (\<forall>cmd\<in>set p. \<exists>r ok. NetSubmit (fst cmd) r ok \<in> set acts) \<and>
        ((\<forall>i r v. \<exists>v'. submitResult C i r v = (Inr (), v')) \<longrightarrow>
           (\<forall>cmd\<in>set p. \<exists>r. NetSubmit (fst cmd) r True \<in> set acts))"
      using g Inr r(2,3,5) by simp
    ultimately show ?thesis using r(4) by blast
  qed
qed

subsection \<open>The examples' server\<close>

lemma tmp_allowed: "validateFilePath sample_host ''/tmp/missing'' = None"
  by (simp add: validateFilePath_def resolved_path_def sample_fs_defs
      BLOCKED_PATH_PREFIXES_def getSensitiveHomePaths_def without_trailing_slash_def)

lemma unknown_type:
  "executeCommand K H events ''reboot'' payload = (Returns (failure ''Unknown command type: reboot''), [])"
  by (simp add: executeCommand_def dispatch_def)

lemma sample_cycle:
  "pollCommands sample_constants sample_client False 0 =
     ([SetProcessing True, NetGetPending,
       NetGetCommand ''c1'', NetSubmit ''c1'' (failure ''network down'') True,
       NetGetCommand ''c2'', Run ''c2'' [],
       NetSubmit ''c2'' (failure ''Unknown command type: reboot'') False,
       NetSubmit ''c2'' (failure ''socket hang up'') True,
       SetProcessing False], 6, False)"
  by (simp add: pollCommands_def handle_command_def report_failure_def sample_client_def
      getErrorMessage_def unknown_type Let_def)

subsection \<open>Blocked paths\<close>

text \<open>
  What the guard does achieve. Let the path compared be what \<open>realpath\<close> gives for the
  supplied path, or, where \<open>realpath\<close> rejects it, the canonical form of its parent
  directory joined with its base name. If that path is a blocked prefix without its
  final slash, or starts with a blocked prefix (the six system prefixes, or \<open>.ssh\<close>,
  \<open>.aws\<close>, \<open>.gnupg\<close>, \<open>.config/gcloud\<close> under the home directory), then \<open>file_read\<close>,
  \<open>file_write\<close> and \<open>file_list\<close> all return a failure whose error starts with
  \<open>Access denied\<close>, and do nothing else. The same holds for \<open>file_list\<close> without a
  path, whose path is then \<open>.\<close>. A link to an existing file under \<open>/etc/\<close> is denied so.
\<close>

lemma compared_path_denied:
  "pre \<in> {''/etc/'', ''/proc/'', ''/sys/'', ''/dev/'', ''/private/etc/'', ''/private/var/db/'',
           path_join H (homedir H) ''.ssh'' @ ''/'', path_join H (homedir H) ''.aws'' @ ''/'',
           path_join H (homedir H) ''.gnupg'' @ ''/'', path_join H (homedir H) ''.config/gcloud'' @ ''/''} \<Longrightarrow>
   canonical @ ''/'' = pre \<or> startsWith canonical pre \<Longrightarrow>
   realpath H p = Some canonical \<or>
   (realpath H p = None \<and> realpath H (path_dirname H (path_resolve H p)) = Some parent \<and>
    canonical = path_join H parent (path_basename H p)) \<Longrightarrow>
   (parseString (payload ''path'') = Some p \<longrightarrow>
      (\<exists>e. startsWith e ''Access denied'' \<and>
           fileRead K H payload = (Returns (failure e), []) \<and>
           fileWrite K H payload = (Returns (failure e), []) \<and>
           fileList K H payload = (Returns (failure e), [])))
   \<and> (parseString (payload ''path'') = None \<and> p = ''.'' \<longrightarrow>
      (\<exists>e. startsWith e ''Access denied'' \<and> fileList K H payload = (Returns (failure e), [])))"
proof -
  assume pre: "pre \<in> {''/etc/'', ''/proc/'', ''/sys/'', ''/dev/'', ''/private/etc/'', ''/private/var/db/'',
           path_join H (homedir H) ''.ssh'' @ ''/'', path_join H (homedir H) ''.aws'' @ ''/'',
           path_join H (homedir H) ''.gnupg'' @ ''/'', path_join H (homedir H) ''.config/gcloud'' @ ''/''}"
    and hit: "canonical @ ''/'' = pre \<or> startsWith canonical pre"
    and canon: "realpath H p = Some canonical \<or>
      (realpath H p = None \<and> realpath H (path_dirname H (path_resolve H p)) = Some parent \<and>
       canonical = path_join H parent (path_basename H p))"
  have r: "resolved_path H p = canonical"
    using canon by (auto simp: resolved_path_def Let_def)
  have "pre \<in> set (BLOCKED_PATH_PREFIXES @ getSensitiveHomePaths H)"
    using pre by (simp add: BLOCKED_PATH_PREFIXES_def getSensitiveHomePaths_def)
  from validateFilePath_denies [OF this] hit r
  obtain e where e: "validateFilePath H p = Some e" "startsWith e ''Access denied''" by auto
  show ?thesis
  proof (intro conjI impI)
    assume ps: "parseString (payload ''path'') = Some p"
    then have "p \<noteq> []" by (cases "payload ''path''") (auto split: if_splits)
    then have "resolveAndValidatePath H payload None = Inl (failure e)"
      "resolveAndValidatePath H payload (Some ''.'') = Inl (failure e)"
      using ps e by (simp_all add: resolveAndValidatePath_def)
    then have "fileRead K H payload = (Returns (failure e), [])"
      "fileWrite K H payload = (Returns (failure e), [])"
      "fileList K H payload = (Returns (failure e), [])"
      by (simp_all add: fileRead_def fileWrite_def fileList_def)
    then show "\<exists>e. startsWith e ''Access denied'' \<and>
           fileRead K H payload = (Returns (failure e), []) \<and>
           fileWrite K H payload = (Returns (failure e), []) \<and>
           fileList K H payload = (Returns (failure e), [])"
      using e(2) by blast
  next
    assume "parseString (payload ''path'') = None \<and> p = ''.''"
    then have "resolveAndValidatePath H payload (Some ''.'') = Inl (failure e)"
      using e by (simp add: resolveAndValidatePath_def)
    then have "fileList K H payload = (Returns (failure e), [])"
      by (simp add: fileList_def)
    then show "\<exists>e. startsWith e ''Access denied'' \<and> fileList K H payload = (Returns (failure e), [])"
      using e(2) by blast
  qed
qed

lemma compared_path_denied_example:
  "(\<exists>e. startsWith e ''Access denied'' \<and>
        fileRead sample_constants sample_host (no_payload(''path'' := JString ''/home/user/link'')) =
          (Returns (failure e), []) \<and>
        fileWrite sample_constants sample_host (no_payload(''path'' := JString ''/home/user/link'')) =
          (Returns (failure e), []) \<and>
        fileList sample_constants sample_host (no_payload(''path'' := JString ''/home/user/link'')) =
          (Returns (failure e), []))
   \<and> (\<exists>e. startsWith e ''Access denied'' \<and>
        fileWrite sample_constants sample_host
          (no_payload(''path'' := JString ''/etc/cron.allow'', ''content'' := JString ''root'')) =
          (Returns (failure e), []))
   \<and> (\<exists>e. startsWith e ''Access denied'' \<and>
        fileList sample_constants sample_host (no_payload(''path'' := JString ''/home/user/.ssh'')) =
          (Returns (failure e), []))"
proof -
  let ?link = "no_payload(''path'' := JString ''/home/user/link'')"
  let ?new = "no_payload(''path'' := JString ''/etc/cron.allow'', ''content'' := JString ''root'')"
  let ?ssh = "no_payload(''path'' := JString ''/home/user/.ssh'')"
  have a1: "realpath sample_host ''/home/user/link'' = Some ''/etc/passwd'' \<or>
     (realpath sample_host ''/home/user/link'' = None \<and>
      realpath sample_host (path_dirname sample_host (path_resolve sample_host ''/home/user/link'')) = Some [] \<and>
      ''/etc/passwd'' = path_join sample_host [] (path_basename sample_host ''/home/user/link''))"
    by (simp add: sample_fs_defs)
  have a2: "realpath sample_host ''/etc/cron.allow'' = Some ''/etc/cron.allow'' \<or>
     (realpath sample_host ''/etc/cron.allow'' = None \<and>
      realpath sample_host (path_dirname sample_host (path_resolve sample_host ''/etc/cron.allow'')) = Some ''/etc'' \<and>
      ''/etc/cron.allow'' = path_join sample_host ''/etc'' (path_basename sample_host ''/etc/cron.allow''))"
    by (simp add: sample_fs_defs)
  have a3: "realpath sample_host ''/home/user/.ssh'' = Some ''/home/user/.ssh'' \<or>
     (realpath sample_host ''/home/user/.ssh'' = None \<and>
      realpath sample_host (path_dirname sample_host (path_resolve sample_host ''/home/user/.ssh'')) = Some [] \<and>
      ''/home/user/.ssh'' = path_join sample_host [] (path_basename sample_host ''/home/user/.ssh''))"
    by (simp add: sample_fs_defs)
  note t1 = compared_path_denied [of "''/etc/''" sample_host "''/etc/passwd''" "''/home/user/link''" "[]"
      ?link sample_constants, OF _ _ a1, THEN conjunct1, THEN mp]
  note t2 = compared_path_denied [of "''/etc/''" sample_host "''/etc/cron.allow''" "''/etc/cron.allow''" "''/etc''"
      ?new sample_constants, OF _ _ a2, THEN conjunct1, THEN mp]
  note t3 = compared_path_denied [of "''/home/user/.ssh/''" sample_host "''/home/user/.ssh''" "''/home/user/.ssh''" "[]"
      ?ssh sample_constants, OF _ _ a3, THEN conjunct1, THEN mp]
  have b1: "\<exists>e. startsWith e ''Access denied'' \<and>
        fileRead sample_constants sample_host ?link = (Returns (failure e), []) \<and>
        fileWrite sample_constants sample_host ?link = (Returns (failure e), []) \<and>
        fileList sample_constants sample_host ?link = (Returns (failure e), [])"
    by (rule t1) simp_all
  have "\<exists>e. startsWith e ''Access denied'' \<and>
        fileRead sample_constants sample_host ?new = (Returns (failure e), []) \<and>
        fileWrite sample_constants sample_host ?new = (Returns (failure e), []) \<and>
        fileList sample_constants sample_host ?new = (Returns (failure e), [])"
    by (rule t2) simp_all
  then have b2: "\<exists>e. startsWith e ''Access denied'' \<and>
        fileWrite sample_constants sample_host ?new = (Returns (failure e), [])" by blast
  have "\<exists>e. startsWith e ''Access denied'' \<and>
        fileRead sample_constants sample_host ?ssh = (Returns (failure e), []) \<and>
        fileWrite sample_constants sample_host ?ssh = (Returns (failure e), []) \<and>
        fileList sample_constants sample_host ?ssh = (Returns (failure e), [])"
    by (rule t3) (simp_all add: sample_host_def)
  then have b3: "\<exists>e. startsWith e ''Access denied'' \<and>
        fileList sample_constants sample_host ?ssh = (Returns (failure e), [])" by blast
  show ?thesis using b1 b2 b3 by blast
qed

text \<open>
  C1 asks that a path is denied whenever its symlink-resolved form lies under a blocked
  prefix, also when the supplied path is a symbolic link whose target resolves into
  one. There the code fails for a link whose target does not exist yet: \<open>realpath\<close>
  rejects such a link, the code takes the rejection to mean a file that is still to be
  created and compares the link's own location, which is not blocked, and \<open>file_write\<close>
  then writes through the link. On the example machine \<open>/tmp/dangling\<close> points to
  \<open>/home/user/.ssh/newkey\<close>: the write to the link succeeds, while the same write to
  the target's own path is denied.
\<close>

theorem dangling_symlink_written:
  "sample_links ''/tmp/dangling'' = Some ''/home/user/.ssh/newkey''
   \<and> startsWith ''/home/user/.ssh/newkey'' (path_join sample_host (homedir sample_host) ''.ssh'' @ ''/'')
   \<and> realpath sample_host ''/tmp/dangling'' = None
   \<and> resolved_path sample_host ''/tmp/dangling'' = ''/tmp/dangling''
   \<and> validateFilePath sample_host ''/tmp/dangling'' = None
   \<and> fileWrite sample_constants sample_host
         (no_payload(''path'' := JString ''/tmp/dangling'', ''content'' := JString ''ssh-ed25519 AAAA'')) =
       (Returns (succeeded (Text ''Written to /tmp/dangling'')),
        [WriteFile ''/tmp/dangling'' ''ssh-ed25519 AAAA''])
   \<and> (\<exists>e. startsWith e ''Access denied'' \<and>
          fileWrite sample_constants sample_host
            (no_payload(''path'' := JString ''/home/user/.ssh/newkey'', ''content'' := JString ''ssh-ed25519 AAAA'')) =
          (Returns (failure e), []))"
  by (simp add: fileWrite_def resolveAndValidatePath_def validateFilePath_def resolved_path_def
      sample_fs_defs sample_constants_def BLOCKED_PATH_PREFIXES_def getSensitiveHomePaths_def
      without_trailing_slash_def no_payload_def failure_def Let_def)

subsection \<open>Blocked commands\<close>

text \<open>
  C2. A command string that one of the blocked patterns matches is rejected by
  \<open>execute_command\<close>: the result is a failure whose error is the text
  \<open>Blocked dangerous command pattern:\<close> followed by the source of a pattern that
  matches, and the call has no effect at all, so no process is spawned. A command
  string that no pattern matches passes the validator.
\<close>

theorem blocked_commands_rejected:
  "payload ''command'' = JString command \<Longrightarrow>
   ((\<exists>p\<in>set BLOCKED_COMMAND_PATTERNS. test (fst p) command) \<longrightarrow>
      (\<exists>p\<in>set BLOCKED_COMMAND_PATTERNS. test (fst p) command \<and>
         executeShellCommand K H events payload =
           (Returns (failure (''Blocked dangerous command pattern: '' @ snd p)), [])))
   \<and> ((\<forall>p\<in>set BLOCKED_COMMAND_PATTERNS. \<not> test (fst p) command) \<longrightarrow> validateCommand command = None)"
proof (intro conjI impI)
  assume cmd: "payload ''command'' = JString command"
    and hit: "\<exists>p\<in>set BLOCKED_COMMAND_PATTERNS. test (fst p) command"
  then have ne: "command \<noteq> []" using test_empty by auto
  from first_blocked_Some [OF hit] obtain p where
    p: "p \<in> set BLOCKED_COMMAND_PATTERNS" "test (fst p) command"
       "validateCommand command = Some (''Blocked dangerous command pattern: '' @ snd p)"
    by (auto simp: validateCommand_def)
  have "executeShellCommand K H events payload =
          (Returns (failure (''Blocked dangerous command pattern: '' @ snd p)), [])"
    using cmd ne p(3) by (simp add: executeShellCommand_def)
  with p show "\<exists>p\<in>set BLOCKED_COMMAND_PATTERNS. test (fst p) command \<and>
         executeShellCommand K H events payload =
           (Returns (failure (''Blocked dangerous command pattern: '' @ snd p)), [])"
    by blast
next
  assume "\<forall>p\<in>set BLOCKED_COMMAND_PATTERNS. \<not> test (fst p) command"
  then show "validateCommand command = None"
    by (simp add: validateCommand_def first_blocked_None)
qed

theorem blocked_commands_rejected_witness:
  "(\<exists>p\<in>set BLOCKED_COMMAND_PATTERNS. test (fst p) ''rm -rf /'' \<and>
      executeShellCommand sample_constants sample_host [] (no_payload(''command'' := JString ''rm -rf /'')) =
        (Returns (failure (''Blocked dangerous command pattern: '' @ snd p)), []))
   \<and> validateCommand ''echo hello'' = None"
proof -
  have a: "\<exists>p\<in>set BLOCKED_COMMAND_PATTERNS. test (fst p) ''rm -rf /''"
    by (simp add: regex_defs)
  have b: "\<forall>p\<in>set BLOCKED_COMMAND_PATTERNS. \<not> test (fst p) ''echo hello''"
    by (simp add: regex_defs)
  have c: "(no_payload(''command'' := JString ''rm -rf /'')) ''command'' = JString ''rm -rf /''" by simp
  show ?thesis
    using blocked_commands_rejected
            [of "no_payload(''command'' := JString ''rm -rf /'')" "''rm -rf /''" sample_constants sample_host "[]"]
          blocked_commands_rejected
            [of "no_payload(''command'' := JString ''echo hello'')" "''echo hello''"] a b c
    by simp
qed

subsection \<open>Every command gets its result\<close>

text \<open>
  C3. \<open>executeCommand\<close> returns a result for every type, payload, host and behaviour
  of the child process: it neither throws nor stays pending. What a handler throws
  comes back as a failure with the thrown message, and a type outside the six known
  ones as the failure \<open>Unknown command type\<close>. In a poll cycle that got the list of
  pending commands, the detail of every command of the list is asked for, in order,
  whatever happened to the commands before it, and for every command a result is
  submitted at least once; the cycle then clears the flag. When the detail cannot be
  fetched, the error's message is submitted as a failure. When submitting the result
  fails, the message of that error is submitted as a failure in a second call, whose
  own failure is dropped. When the server accepts every submission, every command has
  a submission that succeeded.
\<close>

theorem every_command_answered:
  "(\<exists>r effs. executeCommand K H events type payload = (Returns r, effs))
   \<and> (fst (dispatch K H events type payload) = Throws e \<longrightarrow>
        fst (executeCommand K H events type payload) = Returns (failure (getErrorMessage e)))
   \<and> (type \<notin> {''execute_command'', ''file_read'', ''file_write'', ''file_list'', ''process_list'',
                ''process_kill''} \<longrightarrow>
        executeCommand K H events type payload = (Returns (failure (''Unknown command type: '' @ type)), []))
   \<and> (getPendingCommands C w = (Inr pending, w1) \<longrightarrow>
        (\<exists>acts w2. pollCommands K C False w =
             ([SetProcessing True, NetGetPending] @ acts @ [SetProcessing False], w2, False) \<and>
           fetched acts = map fst pending \<and>
           (\<forall>cmd\<in>set pending. \<exists>r ok. NetSubmit (fst cmd) r ok \<in> set acts) \<and>
           ((\<forall>i r v. \<exists>v'. submitResult C i r v = (Inr (), v')) \<longrightarrow>
              (\<forall>cmd\<in>set pending. \<exists>r. NetSubmit (fst cmd) r True \<in> set acts))))
   \<and> (getCommand C commandId w = (Inl e, w1) \<longrightarrow>
        (\<exists>ok w2. handle_command K C (commandId, ty) w =
           ([NetGetCommand commandId, NetSubmit commandId (failure (getErrorMessage e)) ok], w2, True)))
   \<and> (getCommand C commandId w = (Inr detail, w1) \<and>
       executeCommand K (machine C w1) (child_events C w1) (fst detail) (snd detail) = (Returns res, effs) \<and>
       submitResult C commandId res (executed C effs w1) = (Inl e, w2) \<longrightarrow>
        (\<exists>ok w3. handle_command K C (commandId, ty) w =
           ([NetGetCommand commandId, Run commandId effs, NetSubmit commandId res False,
             NetSubmit commandId (failure (getErrorMessage e)) ok], w3, True)))"
proof (intro conjI impI)
  show "\<exists>r effs. executeCommand K H events type payload = (Returns r, effs)"
    by (rule executeCommand_returns)
next
  assume "fst (dispatch K H events type payload) = Throws e"
  then show "fst (executeCommand K H events type payload) = Returns (failure (getErrorMessage e))"
    by (cases "dispatch K H events type payload") (simp add: executeCommand_def)
next
  assume "type \<notin> {''execute_command'', ''file_read'', ''file_write'', ''file_list'', ''process_list'',
                ''process_kill''}"
  then show "executeCommand K H events type payload =
      (Returns (failure (''Unknown command type: '' @ type)), [])"
    by (simp add: executeCommand_def dispatch_def)
next
  assume g: "getPendingCommands C w = (Inr pending, w1)"
  from pollCommands_shape [of K C w] g
  show "\<exists>acts w2. pollCommands K C False w =
             ([SetProcessing True, NetGetPending] @ acts @ [SetProcessing False], w2, False) \<and>
           fetched acts = map fst pending \<and>
           (\<forall>cmd\<in>set pending. \<exists>r ok. NetSubmit (fst cmd) r ok \<in> set acts) \<and>
           ((\<forall>i r v. \<exists>v'. submitResult C i r v = (Inr (), v')) \<longrightarrow>
              (\<forall>cmd\<in>set pending. \<exists>r. NetSubmit (fst cmd) r True \<in> set acts))"
    by (simp del: fetched.simps) blast
next
  assume g: "getCommand C commandId w = (Inl e, w1)"
  obtain ok w2 where "report_failure C commandId e w1 =
      ([NetSubmit commandId (failure (getErrorMessage e)) ok], w2)"
    using report_failure_shape [of C commandId e w1] by blast
  then have "handle_command K C (commandId, ty) w =
           ([NetGetCommand commandId, NetSubmit commandId (failure (getErrorMessage e)) ok], w2, True)"
    using g by (simp add: handle_command_def Let_def)
  then show "\<exists>ok w2. handle_command K C (commandId, ty) w =
           ([NetGetCommand commandId, NetSubmit commandId (failure (getErrorMessage e)) ok], w2, True)"
    by blast
next
  assume a: "getCommand C commandId w = (Inr detail, w1) \<and>
       executeCommand K (machine C w1) (child_events C w1) (fst detail) (snd detail) = (Returns res, effs) \<and>
       submitResult C commandId res (executed C effs w1) = (Inl e, w2)"
  obtain ok w3 where "report_failure C commandId e w2 =
      ([NetSubmit commandId (failure (getErrorMessage e)) ok], w3)"
    using report_failure_shape [of C commandId e w2] by blast
  then have "handle_command K C (commandId, ty) w =
           ([NetGetCommand commandId, Run commandId effs, NetSubmit commandId res False,
             NetSubmit commandId (failure (getErrorMessage e)) ok], w3, True)"
    using a by (simp add: handle_command_def Let_def)
  then show "\<exists>ok w3. handle_command K C (commandId, ty) w =
           ([NetGetCommand commandId, Run commandId effs, NetSubmit commandId res False,
             NetSubmit commandId (failure (getErrorMessage e)) ok], w3, True)"
    by blast
qed

theorem every_command_answered_witness:
  "executeCommand sample_constants sample_host [] ''reboot'' no_payload =
     (Returns (failure ''Unknown command type: reboot''), [])
   \<and> fst (executeCommand sample_constants sample_host [] ''file_read''
            (no_payload(''path'' := JString ''/tmp/missing''))) =
       Returns (failure ''ENOENT: no such file or directory'')
   \<and> pollCommands sample_constants sample_client False 0 =
     ([SetProcessing True, NetGetPending,
       NetGetCommand ''c1'', NetSubmit ''c1'' (failure ''network down'') True,
       NetGetCommand ''c2'', Run ''c2'' [],
       NetSubmit ''c2'' (failure ''Unknown command type: reboot'') False,
       NetSubmit ''c2'' (failure ''socket hang up'') True,
       SetProcessing False], 6, False)
   \<and> handle_command sample_constants sample_client (''c1'', ''file_read'') 1 =
     ([NetGetCommand ''c1'', NetSubmit ''c1'' (failure ''network down'') True], 3, True)"
proof -
  let ?read = "no_payload(''path'' := JString ''/tmp/missing'')"
  have h1: "''reboot'' \<notin> {''execute_command'', ''file_read'', ''file_write'', ''file_list'',
      ''process_list'', ''process_kill''}" by simp
  have h2: "fst (dispatch sample_constants sample_host [] ''file_read'' ?read) = Throws enoent"
    using tmp_allowed
    by (simp add: dispatch_def fileRead_def resolveAndValidatePath_def sample_host_def)
  have h3: "getPendingCommands sample_client (0::nat) = (Inr [(''c1'', ''file_read''), (''c2'', ''reboot'')], 1)"
    by (simp add: sample_client_def)
  have h4: "getCommand sample_client ''c1'' (1::nat) = (Inl (Exn None ''network down''), 2)"
    by (simp add: sample_client_def)
  note a = every_command_answered [where K = sample_constants and H = sample_host and events = "[]"
      and type = "''reboot''" and payload = no_payload, THEN conjunct2, THEN conjunct2, THEN conjunct1,
      THEN mp, OF h1]
  note b = every_command_answered [where K = sample_constants and H = sample_host and events = "[]"
      and type = "''file_read''" and payload = ?read and e = enoent, THEN conjunct2, THEN conjunct1,
      THEN mp, OF h2]
  note c = every_command_answered [where K = sample_constants and C = sample_client and w = "0::nat"
      and pending = "[(''c1'', ''file_read''), (''c2'', ''reboot'')]" and ?w1.0 = 1,
      THEN conjunct2, THEN conjunct2, THEN conjunct2, THEN conjunct1, THEN mp, OF h3]
  note d = every_command_answered [where K = sample_constants and C = sample_client and w = "1::nat"
      and commandId = "''c1''" and e = "Exn None ''network down''" and ?w1.0 = 2 and ty = "''file_read''",
      THEN conjunct2, THEN conjunct2, THEN conjunct2, THEN conjunct2, THEN conjunct1, THEN mp, OF h4]
  have d': "handle_command sample_constants sample_client (''c1'', ''file_read'') 1 =
     ([NetGetCommand ''c1'', NetSubmit ''c1'' (failure ''network down'') True], 3, True)"
    by (simp add: handle_command_def report_failure_def sample_client_def getErrorMessage_def Let_def
        numeral_3_eq_3)
  show ?thesis using a b c d d' sample_cycle by (simp add: enoent_def getErrorMessage_def)
qed

subsection \<open>Killing a process\<close>

text \<open>
  C4, as the code has it. The PID is checked first: a payload whose PID is not a
  positive integer fails with \<open>Invalid PID: must be a positive integer\<close>, whatever its
  signal. With a valid PID, a signal that is a non-empty string outside the allow-list
  fails with an error containing \<open>not allowed\<close>. Neither attempts a kill. With a valid PID
  and a signal that is allow-listed, or that is absent, empty or not a string and so
  replaced by \<open>SIGTERM\<close>, the kill is called exactly once, with that PID and signal.
\<close>

theorem process_kill_checks:
  "((\<nexists>k. 1 \<le> k \<and> payload ''pid'' = JNumber (Finite (real_of_int k))) \<longrightarrow>
      processKill H payload = (Returns (failure ''Invalid PID: must be a positive integer''), []))
   \<and> (1 \<le> k \<and> payload ''pid'' = JNumber (Finite (real_of_int k)) \<and>
        payload ''signal'' = JString sg \<and> sg \<noteq> [] \<and>
        sg \<notin> {''SIGTERM'', ''SIGUSR1'', ''SIGUSR2'', ''SIGINT'', ''SIGHUP''} \<longrightarrow>
      (\<exists>e. processKill H payload = (Returns (failure e), []) \<and> str_includes e ''not allowed''))
   \<and> (1 \<le> k \<and> payload ''pid'' = JNumber (Finite (real_of_int k)) \<and>
        (case parseString (payload ''signal'') of Some s \<Rightarrow> s | None \<Rightarrow> ''SIGTERM'') = sg \<and>
        sg \<in> {''SIGTERM'', ''SIGUSR1'', ''SIGUSR2'', ''SIGINT'', ''SIGHUP''} \<longrightarrow>
      snd (processKill H payload) = [ProcessKill (Finite (real_of_int k)) sg])"
proof (intro conjI impI)
  assume "\<nexists>k. 1 \<le> k \<and> payload ''pid'' = JNumber (Finite (real_of_int k))"
  then have "invalid_pid (parseNumber (payload ''pid''))"
    using invalid_pid_iff [of "payload ''pid''"] by blast
  then show "processKill H payload = (Returns (failure ''Invalid PID: must be a positive integer''), [])"
    by (simp add: processKill_def)
next
  assume a: "1 \<le> k \<and> payload ''pid'' = JNumber (Finite (real_of_int k)) \<and>
        payload ''signal'' = JString sg \<and> sg \<noteq> [] \<and>
        sg \<notin> {''SIGTERM'', ''SIGUSR1'', ''SIGUSR2'', ''SIGINT'', ''SIGHUP''}"
  then have ok: "\<not> invalid_pid (parseNumber (payload ''pid''))"
    using invalid_pid_iff [of "payload ''pid''"] by blast
  let ?e = "''Signal not allowed: '' @ sg @ ''. Allowed: '' @ join_with '', '' ALLOWED_SIGNALS"
  have "processKill H payload = (Returns (failure ?e), [])"
    using a ok by (simp add: processKill_def Let_def ALLOWED_SIGNALS_def)
  moreover have "str_includes (''Signal '' @ ''not allowed'' @ ('': '' @ sg @ ''. Allowed: '' @ join_with '', '' ALLOWED_SIGNALS)) ''not allowed''"
    by (rule str_includes_mid)
  then have "str_includes ?e ''not allowed''" by simp
  ultimately show "\<exists>e. processKill H payload = (Returns (failure e), []) \<and> str_includes e ''not allowed''"
    by blast
next
  assume a: "1 \<le> k \<and> payload ''pid'' = JNumber (Finite (real_of_int k)) \<and>
        (case parseString (payload ''signal'') of Some s \<Rightarrow> s | None \<Rightarrow> ''SIGTERM'') = sg \<and>
        sg \<in> {''SIGTERM'', ''SIGUSR1'', ''SIGUSR2'', ''SIGINT'', ''SIGHUP''}"
  then have ok: "\<not> invalid_pid (parseNumber (payload ''pid''))"
    using invalid_pid_iff [of "payload ''pid''"] by blast
  have "sg \<in> set ALLOWED_SIGNALS" using a by (simp add: ALLOWED_SIGNALS_def)
  then show "snd (processKill H payload) = [ProcessKill (Finite (real_of_int k)) sg]"
    using a ok by (simp add: processKill_def Let_def split: sum.splits)
qed

theorem process_kill_checks_witness:
  "processKill sample_host (no_payload(''pid'' := JString ''12'')) =
     (Returns (failure ''Invalid PID: must be a positive integer''), [])
   \<and> (\<exists>e. processKill sample_host (no_payload(''pid'' := JNumber (Finite 1), ''signal'' := JString ''SIGKILL'')) =
          (Returns (failure e), []) \<and> str_includes e ''not allowed'')
   \<and> snd (processKill sample_host (no_payload(''pid'' := JNumber (Finite 1), ''signal'' := JString ''SIGHUP''))) =
       [ProcessKill (Finite 1) ''SIGHUP'']"
proof -
  let ?p1 = "no_payload(''pid'' := JString ''12'')"
  let ?p2 = "no_payload(''pid'' := JNumber (Finite 1), ''signal'' := JString ''SIGKILL'')"
  let ?p3 = "no_payload(''pid'' := JNumber (Finite 1), ''signal'' := JString ''SIGHUP'')"
  have h1: "\<nexists>k. 1 \<le> k \<and> ?p1 ''pid'' = JNumber (Finite (real_of_int k))" by simp
  have h2: "(1::int) \<le> 1 \<and> ?p2 ''pid'' = JNumber (Finite (real_of_int 1)) \<and>
        ?p2 ''signal'' = JString ''SIGKILL'' \<and> ''SIGKILL'' \<noteq> [] \<and>
        ''SIGKILL'' \<notin> {''SIGTERM'', ''SIGUSR1'', ''SIGUSR2'', ''SIGINT'', ''SIGHUP''}" by simp
  have h3: "(1::int) \<le> 1 \<and> ?p3 ''pid'' = JNumber (Finite (real_of_int 1)) \<and>
        (case parseString (?p3 ''signal'') of Some s \<Rightarrow> s | None \<Rightarrow> ''SIGTERM'') = ''SIGHUP'' \<and>
        ''SIGHUP'' \<in> {''SIGTERM'', ''SIGUSR1'', ''SIGUSR2'', ''SIGINT'', ''SIGHUP''}" by simp
  note t1 = process_kill_checks [of ?p1 sample_host 1 "[]", THEN conjunct1, THEN mp, OF h1]
  note t2 = process_kill_checks [of ?p2 sample_host 1 "''SIGKILL''", THEN conjunct2, THEN conjunct1, THEN mp, OF h2]
  note t3 = process_kill_checks [of ?p3 sample_host 1 "''SIGHUP''", THEN conjunct2, THEN conjunct2, THEN mp, OF h3]
  show ?thesis using t1 t2 t3 by simp
qed

text \<open>
  The claim as first stated fails in two places: with the PID 0 and the signal
  \<open>SIGKILL\<close> the error is the one about the PID and does not contain \<open>not allowed\<close>;
  and the empty string, which is not in the allow-list, does not stop the kill.
\<close>

theorem process_kill_counterexample:
  "processKill sample_host (no_payload(''pid'' := JNumber (Finite 0), ''signal'' := JString ''SIGKILL'')) =
     (Returns (failure ''Invalid PID: must be a positive integer''), [])
   \<and> \<not> str_includes ''Invalid PID: must be a positive integer'' ''not allowed''
   \<and> '''' \<notin> {''SIGTERM'', ''SIGUSR1'', ''SIGUSR2'', ''SIGINT'', ''SIGHUP''}
   \<and> processKill sample_host (no_payload(''pid'' := JNumber (Finite 1), ''signal'' := JString '''')) =
     (Returns (succeeded (Text ''Sent SIGTERM to PID 1'')), [ProcessKill (Finite 1) ''SIGTERM''])"
  by (simp add: processKill_def invalid_pid_def ALLOWED_SIGNALS_def sample_host_def no_payload_def Let_def
      sample_num_text_def decimal.simps)

subsection \<open>The bounds of the timeout\<close>

text \<open>
  C5. A timeout that is a number (not NaN) below 1 or above \<open>MAX_CMD_TIMEOUT\<close> makes
  \<open>execute_command\<close> fail with no effect, so before any process is spawned; when the
  command itself is acceptable the error is the one about the timeout. When the
  timeout field is absent and the default lies within the bounds, a command that
  passes the other checks is spawned, with the timer set to \<open>CMD_DEFAULT_TIMEOUT\<close>.
\<close>

theorem timeout_bounds:
  "(payload ''timeout'' = JNumber n \<and> n \<noteq> NaN \<and> (num_less n 1 \<or> num_greater n (MAX_CMD_TIMEOUT K)) \<longrightarrow>
      (\<exists>r. executeShellCommand K H events payload = (Returns r, []) \<and> \<not> success r) \<and>
      (parseString (payload ''command'') = Some command \<and> validateCommand command = None \<longrightarrow>
         executeShellCommand K H events payload =
           (Returns (failure (''Timeout must be between 1 and '' @ num_text H (Finite (MAX_CMD_TIMEOUT K)) @ ''ms'')), [])))
   \<and> (payload ''timeout'' = JUndefined \<and>
        1 \<le> CMD_DEFAULT_TIMEOUT K \<and> CMD_DEFAULT_TIMEOUT K \<le> MAX_CMD_TIMEOUT K \<and>
        parseString (payload ''command'') = Some command \<and> validateCommand command = None \<and>
        (case parseString (payload ''cwd'') of Some c \<Rightarrow> c | None \<Rightarrow> homedir H) = cwd \<and>
        validateFilePath H cwd = None \<longrightarrow>
      (\<exists>sh args env rest. snd (executeShellCommand K H events payload) =
         Spawn sh args cwd env # SetTimeout (Finite (CMD_DEFAULT_TIMEOUT K)) # rest))"
proof (intro conjI impI)
  assume a: "payload ''timeout'' = JNumber n \<and> n \<noteq> NaN \<and> (num_less n 1 \<or> num_greater n (MAX_CMD_TIMEOUT K))"
  then have pn: "parseNumber (payload ''timeout'') = Some n" by (cases n) auto
  show "\<exists>r. executeShellCommand K H events payload = (Returns r, []) \<and> \<not> success r"
    using a pn by (auto simp: executeShellCommand_def failure_def split: option.splits)
  assume "parseString (payload ''command'') = Some command \<and> validateCommand command = None"
  then show "executeShellCommand K H events payload =
           (Returns (failure (''Timeout must be between 1 and '' @ num_text H (Finite (MAX_CMD_TIMEOUT K)) @ ''ms'')), [])"
    using a pn by (auto simp: executeShellCommand_def)
next
  assume a: "payload ''timeout'' = JUndefined \<and>
        1 \<le> CMD_DEFAULT_TIMEOUT K \<and> CMD_DEFAULT_TIMEOUT K \<le> MAX_CMD_TIMEOUT K \<and>
        parseString (payload ''command'') = Some command \<and> validateCommand command = None \<and>
        (case parseString (payload ''cwd'') of Some c \<Rightarrow> c | None \<Rightarrow> homedir H) = cwd \<and>
        validateFilePath H cwd = None"
  then have "executeShellCommand K H events payload =
      spawn_shell K H (Finite (CMD_DEFAULT_TIMEOUT K)) command cwd events"
    by (auto simp: executeShellCommand_def Let_def)
  then show "\<exists>sh args env rest. snd (executeShellCommand K H events payload) =
         Spawn sh args cwd env # SetTimeout (Finite (CMD_DEFAULT_TIMEOUT K)) # rest"
    using spawn_shell_effects by simp
qed

theorem timeout_bounds_witness:
  "executeShellCommand sample_constants sample_host []
      (no_payload(''command'' := JString ''ls'', ''timeout'' := JNumber (Finite 0))) =
     (Returns (failure ''Timeout must be between 1 and 600000ms''), [])
   \<and> executeShellCommand sample_constants sample_host []
      (no_payload(''command'' := JString ''ls'', ''timeout'' := JNumber PosInfinity)) =
     (Returns (failure ''Timeout must be between 1 and 600000ms''), [])
   \<and> (\<exists>sh args env rest. snd (executeShellCommand sample_constants sample_host []
        (no_payload(''command'' := JString ''ls''))) =
         Spawn sh args ''/home/user'' env # SetTimeout (Finite 60000) # rest)"
proof -
  let ?p0 = "no_payload(''command'' := JString ''ls'', ''timeout'' := JNumber (Finite 0))"
  let ?p1 = "no_payload(''command'' := JString ''ls'', ''timeout'' := JNumber PosInfinity)"
  let ?p2 = "no_payload(''command'' := JString ''ls'')"
  have c: "parseString (?p0 ''command'') = Some ''ls'' \<and> validateCommand ''ls'' = None"
          "parseString (?p1 ''command'') = Some ''ls'' \<and> validateCommand ''ls'' = None"
    using ls_allowed by simp_all
  have h0: "?p0 ''timeout'' = JNumber (Finite 0) \<and> Finite 0 \<noteq> NaN \<and>
      (num_less (Finite 0) 1 \<or> num_greater (Finite 0) (MAX_CMD_TIMEOUT sample_constants))" by simp
  have h1: "?p1 ''timeout'' = JNumber PosInfinity \<and> PosInfinity \<noteq> NaN \<and>
      (num_less PosInfinity 1 \<or> num_greater PosInfinity (MAX_CMD_TIMEOUT sample_constants))" by simp
  have h2: "?p2 ''timeout'' = JUndefined \<and>
        1 \<le> CMD_DEFAULT_TIMEOUT sample_constants \<and>
        CMD_DEFAULT_TIMEOUT sample_constants \<le> MAX_CMD_TIMEOUT sample_constants \<and>
        parseString (?p2 ''command'') = Some ''ls'' \<and> validateCommand ''ls'' = None \<and>
        (case parseString (?p2 ''cwd'') of Some c \<Rightarrow> c | None \<Rightarrow> homedir sample_host) = ''/home/user'' \<and>
        validateFilePath sample_host ''/home/user'' = None"
    using ls_allowed home_allowed by (simp add: sample_constants_def no_payload_def sample_host_def)
  note t0 = timeout_bounds [of ?p0 "Finite 0" sample_constants sample_host "[]" "''ls'' " "''/home/user''",
      THEN conjunct1, THEN mp, OF h0, THEN conjunct2, THEN mp, OF c(1)]
  note t1 = timeout_bounds [of ?p1 PosInfinity sample_constants sample_host "[]" "''ls'' " "''/home/user''",
      THEN conjunct1, THEN mp, OF h1, THEN conjunct2, THEN mp, OF c(2)]
  note t2 = timeout_bounds [of ?p2 NaN sample_constants sample_host "[]" "''ls'' " "''/home/user''",
      THEN conjunct2, THEN mp, OF h2]
  have n: "num_text sample_host (Finite (MAX_CMD_TIMEOUT sample_constants)) = ''600000''"
    by (simp add: sample_host_def sample_constants_def sample_num_text_def decimal.simps)
  have d: "CMD_DEFAULT_TIMEOUT sample_constants = 60000" by (simp add: sample_constants_def)
  show ?thesis using t0 t1 t2 unfolding n d by simp
qed

subsection \<open>The output cap\<close>

text \<open>
  C6, as the code has it. Take a run in which the process closes before the timer
  elapses or a spawn error arrives, and the output that came before. The counter
  \<open>outputSize\<close> is the number of bytes of that output on both streams. When it
  exceeds \<open>MAX_OUTPUT_SIZE\<close>, the data of the result is the captured stdout followed by
  the truncation marker, and every chunk that arrives once the counter is above the cap
  is dropped whole, so the buffers stay as they were when the cap was first exceeded.
  For output of one byte per character, the captured stdout and stderr together are
  never longer than the cap; and when the whole output is at most the cap (in
  particular exactly the cap) all of it is captured and the data carries no marker.
\<close>

theorem output_is_capped:
  "(\<forall>e\<in>set pre. is_output e) \<and>
   sh = (if platform H = ''win32'' then ''cmd.exe'' else ''/bin/sh'') \<and>
   s = fst (feed K H t sh pre initial_shell) \<longrightarrow>
     outputSize s = output_bytes pre
   \<and> (output_bytes pre > MAX_OUTPUT_SIZE K \<longrightarrow>
        (\<exists>r. fst (spawn_shell K H t command cwd (pre @ Close code # rest)) = Returns r \<and>
             data r = Some (Text (stdout s @ truncation_marker))))
   \<and> (\<forall>pre1 pre2. pre = pre1 @ pre2 \<and> output_bytes pre1 > MAX_OUTPUT_SIZE K \<longrightarrow>
        stdout s = stdout (fst (feed K H t sh pre1 initial_shell)) \<and>
        stderr s = stderr (fst (feed K H t sh pre1 initial_shell)))
   \<and> ((\<forall>e\<in>set pre. single_byte e) \<longrightarrow>
        length (stdout s) + length (stderr s) \<le> MAX_OUTPUT_SIZE K \<and>
        (output_bytes pre \<le> MAX_OUTPUT_SIZE K \<longrightarrow>
           length (stdout s) + length (stderr s) = output_bytes pre \<and>
           (\<exists>r. fst (spawn_shell K H t command cwd (pre @ Close code # rest)) = Returns r \<and>
                data r = Some (Text (stdout s)))))"
proof (intro impI)
  assume a: "(\<forall>e\<in>set pre. is_output e) \<and>
     sh = (if platform H = ''win32'' then ''cmd.exe'' else ''/bin/sh'') \<and>
     s = fst (feed K H t sh pre initial_shell)"
  then have out: "\<forall>e\<in>set pre. is_output e" and s: "s = fst (feed K H t sh pre initial_shell)" by auto
  note o = feed_output [OF out, of K H t sh initial_shell]
  have size: "outputSize s = output_bytes pre"
    using o s by (simp add: initial_shell_def)
  note close = completion_paths [where K = K and H = H and t = t and command = command and cwd = cwd
      and pre = pre and sh = sh and s = s and code = code and rest = rest,
      THEN conjunct2, THEN mp, OF a, THEN conjunct2, THEN conjunct1, THEN conjunct1]
  have over: "output_bytes pre > MAX_OUTPUT_SIZE K \<longrightarrow>
        (\<exists>r. fst (spawn_shell K H t command cwd (pre @ Close code # rest)) = Returns r \<and>
             data r = Some (Text (stdout s @ truncation_marker)))"
    using close size by simp
  have stops: "\<forall>pre1 pre2. pre = pre1 @ pre2 \<and> output_bytes pre1 > MAX_OUTPUT_SIZE K \<longrightarrow>
        stdout s = stdout (fst (feed K H t sh pre1 initial_shell)) \<and>
        stderr s = stderr (fst (feed K H t sh pre1 initial_shell))"
  proof (intro allI impI)
    fix pre1 pre2
    assume p: "pre = pre1 @ pre2 \<and> output_bytes pre1 > MAX_OUTPUT_SIZE K"
    let ?s1 = "fst (feed K H t sh pre1 initial_shell)"
    have o1: "\<forall>e\<in>set pre1. is_output e" and o2: "\<forall>e\<in>set pre2. is_output e" using out p by auto
    have "outputSize ?s1 > MAX_OUTPUT_SIZE K"
      using feed_output [OF o1, of K H t sh initial_shell] p by (simp add: initial_shell_def)
    from feed_over [OF o2 this, of H t sh]
    show "stdout s = stdout ?s1 \<and> stderr s = stderr ?s1"
      using p s by (simp add: feed_append Let_def split: prod.splits)
  qed
  have single: "(\<forall>e\<in>set pre. single_byte e) \<longrightarrow>
        length (stdout s) + length (stderr s) \<le> MAX_OUTPUT_SIZE K \<and>
        (output_bytes pre \<le> MAX_OUTPUT_SIZE K \<longrightarrow>
           length (stdout s) + length (stderr s) = output_bytes pre \<and>
           (\<exists>r. fst (spawn_shell K H t command cwd (pre @ Close code # rest)) = Returns r \<and>
                data r = Some (Text (stdout s))))"
  proof
    assume "\<forall>e\<in>set pre. single_byte e"
    then have both: "\<forall>e\<in>set pre. is_output e \<and> single_byte e" using out by simp
    have init: "length (stdout initial_shell) + length (stderr initial_shell) \<le> MAX_OUTPUT_SIZE K \<and>
       (outputSize initial_shell \<le> MAX_OUTPUT_SIZE K \<longrightarrow>
          length (stdout initial_shell) + length (stderr initial_shell) = outputSize initial_shell)"
      by (simp add: initial_shell_def)
    from feed_captured [OF both init, of H t sh]
    show "length (stdout s) + length (stderr s) \<le> MAX_OUTPUT_SIZE K \<and>
        (output_bytes pre \<le> MAX_OUTPUT_SIZE K \<longrightarrow>
           length (stdout s) + length (stderr s) = output_bytes pre \<and>
           (\<exists>r. fst (spawn_shell K H t command cwd (pre @ Close code # rest)) = Returns r \<and>
                data r = Some (Text (stdout s))))"
      using close size s by simp
  qed
  show "outputSize s = output_bytes pre
   \<and> (output_bytes pre > MAX_OUTPUT_SIZE K \<longrightarrow>
        (\<exists>r. fst (spawn_shell K H t command cwd (pre @ Close code # rest)) = Returns r \<and>
             data r = Some (Text (stdout s @ truncation_marker))))
   \<and> (\<forall>pre1 pre2. pre = pre1 @ pre2 \<and> output_bytes pre1 > MAX_OUTPUT_SIZE K \<longrightarrow>
        stdout s = stdout (fst (feed K H t sh pre1 initial_shell)) \<and>
        stderr s = stderr (fst (feed K H t sh pre1 initial_shell)))
   \<and> ((\<forall>e\<in>set pre. single_byte e) \<longrightarrow>
        length (stdout s) + length (stderr s) \<le> MAX_OUTPUT_SIZE K \<and>
        (output_bytes pre \<le> MAX_OUTPUT_SIZE K \<longrightarrow>
           length (stdout s) + length (stderr s) = output_bytes pre \<and>
           (\<exists>r. fst (spawn_shell K H t command cwd (pre @ Close code # rest)) = Returns r \<and>
                data r = Some (Text (stdout s)))))"
    using size over stops single by blast
qed

theorem output_is_capped_witness:
  "(\<exists>r. fst (spawn_shell sample_constants sample_host (Finite 60000) ''cat big'' ''/home/user''
           [StdoutData (Buffer 10485759 (replicate 10485759 (CHR ''x''))), StdoutData (Buffer 2 ''yz''),
            StderrData (Buffer 1 ''!''), Close (Some 0)]) = Returns r \<and>
        data r = Some (Text (replicate 10485759 (CHR ''x'') @ truncation_marker)))
   \<and> (\<exists>r. fst (spawn_shell sample_constants sample_host (Finite 60000) ''cat fits'' ''/home/user''
           [StdoutData (Buffer 10485759 (replicate 10485759 (CHR ''x''))), StdoutData (Buffer 1 ''y''),
            Close (Some 0)]) = Returns r \<and>
        data r = Some (Text (replicate 10485759 (CHR ''x'') @ ''y'')))
   \<and> length (replicate 10485759 (CHR ''x'') @ ''y'') = MAX_OUTPUT_SIZE sample_constants"
proof -
  let ?x = "StdoutData (Buffer 10485759 (replicate 10485759 (CHR ''x'')))"
  let ?over = "[?x, StdoutData (Buffer 2 ''yz''), StderrData (Buffer 1 ''!'')]"
  let ?fits = "[?x, StdoutData (Buffer 1 ''y'')]"
  let ?sh = "''/bin/sh''"
  have cap: "MAX_OUTPUT_SIZE sample_constants = 10485760" by (simp add: sample_constants_def)
  have sh: "?sh = (if platform sample_host = ''win32'' then ''cmd.exe'' else ''/bin/sh'')"
    by (simp add: sample_host_def)
  have so: "fst (feed sample_constants sample_host (Finite 60000) ?sh ?over initial_shell) =
      \<lparr>resolved = False, stdout = replicate 10485759 (CHR ''x''), stderr = [], outputSize = 10485762,
       timerPending = True\<rparr>"
    by (simp add: shell_defs cap)
  have sf: "fst (feed sample_constants sample_host (Finite 60000) ?sh ?fits initial_shell) =
      \<lparr>resolved = False, stdout = replicate 10485759 (CHR ''x'') @ ''y'', stderr = [], outputSize = 10485760,
       timerPending = True\<rparr>"
    by (simp add: shell_defs cap)
  have ho: "(\<forall>e\<in>set ?over. is_output e) \<and>
      ?sh = (if platform sample_host = ''win32'' then ''cmd.exe'' else ''/bin/sh'') \<and>
      \<lparr>resolved = False, stdout = replicate 10485759 (CHR ''x''), stderr = [], outputSize = 10485762,
       timerPending = True\<rparr> = fst (feed sample_constants sample_host (Finite 60000) ?sh ?over initial_shell)"
    using sh so by simp
  have hf: "(\<forall>e\<in>set ?fits. is_output e) \<and>
      ?sh = (if platform sample_host = ''win32'' then ''cmd.exe'' else ''/bin/sh'') \<and>
      \<lparr>resolved = False, stdout = replicate 10485759 (CHR ''x'') @ ''y'', stderr = [], outputSize = 10485760,
       timerPending = True\<rparr> = fst (feed sample_constants sample_host (Finite 60000) ?sh ?fits initial_shell)"
    using sh sf by simp
  have bo: "output_bytes ?over > MAX_OUTPUT_SIZE sample_constants" by (simp add: cap)
  have bf: "output_bytes ?fits \<le> MAX_OUTPUT_SIZE sample_constants" by (simp add: cap)
  have single: "\<forall>e\<in>set ?fits. single_byte e" by simp
  note a = output_is_capped [where K = sample_constants and H = sample_host and t = "Finite 60000"
      and command = "''cat big''" and cwd = "''/home/user''" and pre = ?over and sh = ?sh
      and code = "Some 0" and rest = "[]", THEN mp, OF ho, THEN conjunct2, THEN conjunct1, THEN mp, OF bo]
  note b = output_is_capped [where K = sample_constants and H = sample_host and t = "Finite 60000"
      and command = "''cat fits''" and cwd = "''/home/user''" and pre = ?fits and sh = ?sh
      and code = "Some 0" and rest = "[]", THEN mp, OF hf, THEN conjunct2, THEN conjunct2, THEN conjunct2,
      THEN mp, OF single, THEN conjunct2, THEN mp, OF bf, THEN conjunct2]
  have c: "length (replicate 10485759 (CHR ''x'') @ ''y'') = MAX_OUTPUT_SIZE sample_constants"
    by (simp add: cap)
  show ?thesis using a b c by simp
qed

text \<open>
  The claim as first stated fails on the timeout path: a command whose output exceeds
  the cap and which is then killed by the timer resolves with the timeout error and no
  data, so nothing ends with the marker. And truncation is by whole chunks: the
  capture may stop short of the cap rather than at it.
\<close>

theorem output_cap_counterexample:
  "output_bytes [StdoutData (Buffer 10485761 (replicate 10485761 (CHR ''y'')))] > MAX_OUTPUT_SIZE sample_constants
   \<and> fst (spawn_shell sample_constants sample_host (Finite 60000) ''yes'' ''/home/user''
         [StdoutData (Buffer 10485761 (replicate 10485761 (CHR ''y''))), TimerElapsed, Close None]) =
       Returns \<lparr>success = False, data = None, error = Some ''Command timed out after 60000ms''\<rparr>
   \<and> fst (spawn_shell sample_constants sample_host (Finite 60000) ''cat big'' ''/home/user''
         [StdoutData (Buffer 10485759 (replicate 10485759 (CHR ''x''))), StdoutData (Buffer 2 ''yz''),
          Close (Some 0)]) =
       Returns \<lparr>success = True,
                data = Some (Text (replicate 10485759 (CHR ''x'') @ truncation_marker)), error = None\<rparr>
   \<and> length (replicate 10485759 (CHR ''x'')) < MAX_OUTPUT_SIZE sample_constants"
  by (simp add: spawn_shell_def deliver_def shell_defs promise_value_def failure_def truncation_marker_def
      sample_constants_def sample_host_def sample_num_text_def decimal.simps)

subsection \<open>One resolution for each run of the shell\<close>

text \<open>
  C7. Whatever the child process does and in whatever order, the promise of the shell
  runner is resolved exactly once. After output only, the completion that comes first
  decides the result: the timer elapsing kills the child with \<open>SIGKILL\<close> and gives the
  timeout error; \<open>close\<close> clears the timer, kills nothing, and gives success for the
  exit code 0 and otherwise a failure with the captured stderr or
  \<open>Process exited with code N\<close>, the captured stdout being the data either way; a
  spawn error clears the timer and gives \<open>Command not found\<close> for \<open>ENOENT\<close>,
  \<open>Permission denied\<close> for \<open>EACCES\<close> and the error's own message otherwise. When the
  process never completes, the timer does.
\<close>

theorem resolves_exactly_once:
  "length (resolutions (snd (spawn_shell K H t command cwd events))) = 1
   \<and> ((\<forall>e\<in>set pre. is_output e) \<and>
       sh = (if platform H = ''win32'' then ''cmd.exe'' else ''/bin/sh'') \<and>
       s = fst (feed K H t sh pre initial_shell) \<longrightarrow>
       (fst (spawn_shell K H t command cwd (pre @ TimerElapsed # rest)) =
          Returns (failure (''Command timed out after '' @ num_text H t @ ''ms'')) \<and>
        ChildKill ''SIGKILL'' \<in> set (snd (spawn_shell K H t command cwd (pre @ TimerElapsed # rest))))
     \<and> (fst (spawn_shell K H t command cwd (pre @ Close code # rest)) =
          Returns \<lparr>success = (code = Some 0),
                   data = Some (Text (stdout s @ (if outputSize s > MAX_OUTPUT_SIZE K then truncation_marker else []))),
                   error = (if code = Some 0 then None
                            else Some (if stderr s \<noteq> [] then stderr s
                                       else ''Process exited with code '' @ exit_code_text H code))\<rparr> \<and>
        ClearTimeout \<in> set (snd (spawn_shell K H t command cwd (pre @ Close code # rest))) \<and>
        ChildKill ''SIGKILL'' \<notin> set (snd (spawn_shell K H t command cwd (pre @ Close code # rest))))
     \<and> (fst (spawn_shell K H t command cwd (pre @ SpawnError err # rest)) =
          Returns (failure (if exn_code err = Some ''ENOENT'' then ''Command not found: '' @ sh
                            else if exn_code err = Some ''EACCES'' then ''Permission denied: '' @ sh
                            else exn_message err)) \<and>
        ClearTimeout \<in> set (snd (spawn_shell K H t command cwd (pre @ SpawnError err # rest))) \<and>
        ChildKill ''SIGKILL'' \<notin> set (snd (spawn_shell K H t command cwd (pre @ SpawnError err # rest))))
     \<and> fst (spawn_shell K H t command cwd pre) =
          Returns (failure (''Command timed out after '' @ num_text H t @ ''ms'')))"
  by (rule completion_paths)

theorem resolves_exactly_once_witness:
  "fst (spawn_shell sample_constants sample_host (Finite 60000) ''echo hello'' ''/home/user''
         [StdoutData (Buffer 6 (''hello'' @ [CHR 0x0A])), Close (Some 0), TimerElapsed]) =
     Returns \<lparr>success = True, data = Some (Text (''hello'' @ [CHR 0x0A])), error = None\<rparr>
   \<and> fst (spawn_shell sample_constants sample_host (Finite 60000) ''sleep 100'' ''/home/user''
         [StdoutData (Buffer 6 (''hello'' @ [CHR 0x0A])), TimerElapsed, Close None]) =
     Returns (failure ''Command timed out after 60000ms'')
   \<and> fst (spawn_shell sample_constants sample_host (Finite 60000) ''ls'' ''/home/user''
         [SpawnError (Exn (Some ''ENOENT'') ''spawn /bin/sh ENOENT''), Close (Some (- 2))]) =
     Returns (failure ''Command not found: /bin/sh'')
   \<and> fst (spawn_shell sample_constants sample_host (Finite 60000) ''false'' ''/home/user''
         [Close (Some 1)]) =
     Returns \<lparr>success = False, data = Some (Text []), error = Some ''Process exited with code 1''\<rparr>
   \<and> length (resolutions (snd (spawn_shell sample_constants sample_host (Finite 60000) ''ls'' ''/home/user''
         [TimerElapsed, Close None, SpawnError enoent, TimerElapsed]))) = 1"
proof -
  let ?hello = "[StdoutData (Buffer 6 (''hello'' @ [CHR 0x0A]))]"
  let ?sh = "''/bin/sh''"
  have sh: "?sh = (if platform sample_host = ''win32'' then ''cmd.exe'' else ''/bin/sh'')"
    by (simp add: sample_host_def)
  have cap: "MAX_OUTPUT_SIZE sample_constants = 10485760" by (simp add: sample_constants_def)
  have s1: "fst (feed sample_constants sample_host (Finite 60000) ?sh ?hello initial_shell) =
      \<lparr>resolved = False, stdout = ''hello'' @ [CHR 0x0A], stderr = [], outputSize = 6, timerPending = True\<rparr>"
    by (simp add: shell_defs cap)
  have s0: "fst (feed sample_constants sample_host (Finite 60000) ?sh [] initial_shell) =
      \<lparr>resolved = False, stdout = [], stderr = [], outputSize = 0, timerPending = True\<rparr>"
    by (simp add: shell_defs)
  have h1: "(\<forall>e\<in>set ?hello. is_output e) \<and>
       ?sh = (if platform sample_host = ''win32'' then ''cmd.exe'' else ''/bin/sh'') \<and>
       \<lparr>resolved = False, stdout = ''hello'' @ [CHR 0x0A], stderr = [], outputSize = 6, timerPending = True\<rparr> =
         fst (feed sample_constants sample_host (Finite 60000) ?sh ?hello initial_shell)"
    using sh s1 by simp
  have h0: "(\<forall>e\<in>set []. is_output e) \<and>
       ?sh = (if platform sample_host = ''win32'' then ''cmd.exe'' else ''/bin/sh'') \<and>
       \<lparr>resolved = False, stdout = [], stderr = [], outputSize = 0, timerPending = True\<rparr> =
         fst (feed sample_constants sample_host (Finite 60000) ?sh [] initial_shell)"
    using sh s0 by simp
  have shown: "num_text sample_host (Finite 60000) = ''60000''"
    "exit_code_text sample_host (Some 1) = ''1''"
    by (simp_all add: sample_host_def sample_num_text_def exit_code_text_def decimal.simps)
  note a = resolves_exactly_once [where K = sample_constants and H = sample_host and t = "Finite 60000"
      and command = "''echo hello''" and cwd = "''/home/user''" and pre = ?hello and sh = ?sh
      and code = "Some 0" and rest = "[TimerElapsed]", THEN conjunct2, THEN mp, OF h1,
      THEN conjunct2, THEN conjunct1, THEN conjunct1]
  note b = resolves_exactly_once [where K = sample_constants and H = sample_host and t = "Finite 60000"
      and command = "''sleep 100''" and cwd = "''/home/user''" and pre = ?hello and sh = ?sh
      and rest = "[Close None]", THEN conjunct2, THEN mp, OF h1, THEN conjunct1, THEN conjunct1]
  note c = resolves_exactly_once [where K = sample_constants and H = sample_host and t = "Finite 60000"
      and command = "''ls''" and cwd = "''/home/user''" and pre = "[]" and sh = ?sh
      and err = "Exn (Some ''ENOENT'') ''spawn /bin/sh ENOENT''" and rest = "[Close (Some (- 2))]",
      THEN conjunct2, THEN mp, OF h0, THEN conjunct2, THEN conjunct2, THEN conjunct1, THEN conjunct1]
  note d = resolves_exactly_once [where K = sample_constants and H = sample_host and t = "Finite 60000"
      and command = "''false''" and cwd = "''/home/user''" and pre = "[]" and sh = ?sh
      and code = "Some 1" and rest = "[]", THEN conjunct2, THEN mp, OF h0,
      THEN conjunct2, THEN conjunct1, THEN conjunct1]
  note e = resolves_exactly_once [where K = sample_constants and H = sample_host and t = "Finite 60000"
      and command = "''ls''" and cwd = "''/home/user''"
      and events = "[TimerElapsed, Close None, SpawnError enoent, TimerElapsed]", THEN conjunct1]
  show ?thesis using a b c d e by (simp add: shown cap)
qed

subsection \<open>Single-flight polling\<close>

text \<open>
  C8. A call of \<open>pollCommands\<close> that finds the flag set does nothing: no network call,
  no execution, the world and the flag as they were; so a tick of the poll timer in
  that state leaves the agent unchanged. A call that finds the flag clear sets it
  before its first network call and clears it as its last step, and nowhere in
  between, also when fetching the pending commands fails.
\<close>

theorem single_flight:
  "pollCommands K C True w = ([], w, True)
   \<and> (\<exists>acts w'. pollCommands K C False w =
          (SetProcessing True # NetGetPending # acts @ [SetProcessing False], w', False) \<and>
        (\<forall>b. SetProcessing b \<notin> set acts))
   \<and> (getPendingCommands C w = (Inl e, w1) \<longrightarrow>
        pollCommands K C False w = ([SetProcessing True, NetGetPending, SetProcessing False], w1, False))
   \<and> (pollTimer a = Some h \<and> h \<in> set (intervals a) \<and> processing a \<longrightarrow> poll_due K C a = a)"
proof (intro conjI impI)
  show "pollCommands K C True w = ([], w, True)" by (simp add: pollCommands_def)
  show "\<exists>acts w'. pollCommands K C False w =
          (SetProcessing True # NetGetPending # acts @ [SetProcessing False], w', False) \<and>
        (\<forall>b. SetProcessing b \<notin> set acts)"
    using pollCommands_shape [of K C w] by blast
next
  assume "getPendingCommands C w = (Inl e, w1)"
  then show "pollCommands K C False w = ([SetProcessing True, NetGetPending, SetProcessing False], w1, False)"
    by (simp add: pollCommands_def)
next
  assume "pollTimer a = Some h \<and> h \<in> set (intervals a) \<and> processing a"
  then show "poll_due K C a = a" by (simp add: poll_due_def pollCommands_def)
qed

theorem single_flight_witness:
  "pollCommands sample_constants sample_client True 7 = ([], 7, True)
   \<and> pollCommands sample_constants
        (sample_client\<lparr>getPendingCommands := (\<lambda>w. (Inl (Exn None ''offline''), Suc w))\<rparr>) False 7 =
       ([SetProcessing True, NetGetPending, SetProcessing False], 8, False)
   \<and> poll_due sample_constants sample_client
        \<lparr>heartbeatTimer = Some 0, pollTimer = Some 1, processing = True, registering = False,
         intervals = [0, 1], next_handle = 2, world = 7, history = [NetRegister, NetHeartbeat]\<rparr> =
        \<lparr>heartbeatTimer = Some 0, pollTimer = Some 1, processing = True, registering = False,
         intervals = [0, 1], next_handle = 2, world = 7, history = [NetRegister, NetHeartbeat]\<rparr>"
proof -
  let ?off = "sample_client\<lparr>getPendingCommands := (\<lambda>w. (Inl (Exn None ''offline''), Suc w))\<rparr>"
  let ?a = "\<lparr>heartbeatTimer = Some 0, pollTimer = Some 1, processing = True, registering = False,
         intervals = [0, 1], next_handle = 2, world = 7::nat, history = [NetRegister, NetHeartbeat]\<rparr>"
  have h1: "getPendingCommands ?off (7::nat) = (Inl (Exn None ''offline''), 8)" by simp
  have h2: "pollTimer ?a = Some 1 \<and> 1 \<in> set (intervals ?a) \<and> processing ?a" by simp
  note a = single_flight [where K = sample_constants and C = sample_client and w = "7::nat", THEN conjunct1]
  note b = single_flight [where K = sample_constants and C = ?off and w = "7::nat"
      and e = "Exn None ''offline''" and ?w1.0 = 8,
      THEN conjunct2, THEN conjunct2, THEN conjunct1, THEN mp, OF h1]
  note c = single_flight [where K = sample_constants and C = sample_client and a = ?a and h = 1,
      THEN conjunct2, THEN conjunct2, THEN conjunct2, THEN mp, OF h2]
  show ?thesis using a b c by simp
qed

subsection \<open>Stopping an agent\<close>

text \<open>
  What \<open>stop\<close> does achieve: it is idempotent, and it silences the timers the agent
  has when it is called.
\<close>

lemma stop_idempotent: "stop (stop a) = stop a"
  by (simp add: stop_def clearInterval_def split: option.splits)

text \<open>Once \<open>stop\<close> has run, the callbacks of the timers the agent then had do nothing.\<close>

lemma stop_cancels:
  "heartbeat_due C (stop a) = stop a \<and> poll_due K C (stop a) = stop a"
  by (simp add: stop_def clearInterval_def heartbeat_due_def poll_due_def split: option.splits)

lemmas agent_defs = agent_run_def startProjectAgent_def register_settles_def sendHeartbeat_def
  stop_def clearInterval_def heartbeat_due_def poll_due_def

text \<open>
  C9 asks that \<open>stop\<close> cancels both timers at every point of the agent's life, also
  before registration has completed. There the code fails: while \<open>register\<close> is awaited
  the agent has no timer yet, \<open>stop\<close> changes nothing and leaves no trace, and when
  registration then succeeds both intervals are started; the agent sends heartbeats,
  polls and executes commands after \<open>stop\<close> has returned. Called after registration,
  \<open>stop\<close> leaves no interval alive and the later ticks do nothing.
\<close>

theorem stop_before_registration:
  "agent_run sample_constants sample_client 0 [StopCalled] = startProjectAgent 0
   \<and> intervals (agent_run sample_constants sample_client 0 [StopCalled, RegisterSettles]) = [0, 1]
   \<and> history (agent_run sample_constants sample_client 0 [StopCalled, RegisterSettles, HeartbeatDue, PollDue]) =
       [NetRegister, NetHeartbeat, NetHeartbeat, SetProcessing True, NetGetPending,
        NetGetCommand ''c1'', NetSubmit ''c1'' (failure ''network down'') True,
        NetGetCommand ''c2'', Run ''c2'' [],
        NetSubmit ''c2'' (failure ''Unknown command type: reboot'') True, SetProcessing False]
   \<and> intervals (agent_run sample_constants sample_client 0 [RegisterSettles, StopCalled]) = []
   \<and> history (agent_run sample_constants sample_client 0 [RegisterSettles, StopCalled, HeartbeatDue, PollDue]) =
       [NetRegister, NetHeartbeat]"
  by (simp add: agent_defs pollCommands_def handle_command_def report_failure_def sample_client_def
      getErrorMessage_def unknown_type Let_def)

subsection \<open>Empty and ill-typed payload fields\<close>

text \<open>
  C10. An empty string in a payload field counts as an absent field: \<open>file_read\<close> and
  \<open>file_write\<close> with the path \<open>""\<close> fail with \<open>No file path specified\<close>;
  \<open>execute_command\<close> with the command \<open>""\<close> fails with \<open>No command specified\<close>;
  \<open>process_kill\<close> with the signal \<open>""\<close> and a valid PID behaves as with \<open>SIGTERM\<close>
  and sends it; and a timeout that is not a number gives what the default timeout
  gives: where the default lies within the bounds and the command passes the other
  checks, the command is not rejected but spawned, with the timer set to
  \<open>CMD_DEFAULT_TIMEOUT\<close>.
\<close>

theorem empty_fields_are_absent:
  "(payload ''path'' = JString [] \<longrightarrow>
      fileRead K H payload = (Returns (failure ''No file path specified''), []) \<and>
      fileWrite K H payload = (Returns (failure ''No file path specified''), []))
   \<and> (payload ''command'' = JString [] \<longrightarrow>
      executeShellCommand K H events payload = (Returns (failure ''No command specified''), []))
   \<and> (payload ''signal'' = JString [] \<and> payload ''pid'' = JNumber (Finite (real_of_int k)) \<and> 1 \<le> k \<longrightarrow>
      processKill H payload = processKill H (payload(''signal'' := JString ''SIGTERM'')) \<and>
      snd (processKill H payload) = [ProcessKill (Finite (real_of_int k)) ''SIGTERM''])
   \<and> ((\<forall>n. payload ''timeout'' \<noteq> JNumber n) \<longrightarrow>
      executeShellCommand K H events payload =
        executeShellCommand K H events (payload(''timeout'' := JNumber (Finite (CMD_DEFAULT_TIMEOUT K)))))
   \<and> ((\<forall>n. payload ''timeout'' \<noteq> JNumber n) \<and>
        1 \<le> CMD_DEFAULT_TIMEOUT K \<and> CMD_DEFAULT_TIMEOUT K \<le> MAX_CMD_TIMEOUT K \<and>
        parseString (payload ''command'') = Some command \<and> validateCommand command = None \<and>
        (case parseString (payload ''cwd'') of Some c \<Rightarrow> c | None \<Rightarrow> homedir H) = cwd \<and>
        validateFilePath H cwd = None \<longrightarrow>
      executeShellCommand K H events payload =
        spawn_shell K H (Finite (CMD_DEFAULT_TIMEOUT K)) command cwd events \<and>
      (\<exists>sh args env rest. snd (executeShellCommand K H events payload) =
         Spawn sh args cwd env # SetTimeout (Finite (CMD_DEFAULT_TIMEOUT K)) # rest))"
proof (intro conjI impI)
  assume "payload ''path'' = JString []"
  then show "fileRead K H payload = (Returns (failure ''No file path specified''), [])"
    by (simp add: fileRead_def resolveAndValidatePath_def)
next
  assume "payload ''path'' = JString []"
  then show "fileWrite K H payload = (Returns (failure ''No file path specified''), [])"
    by (simp add: fileWrite_def resolveAndValidatePath_def)
next
  assume "payload ''command'' = JString []"
  then show "executeShellCommand K H events payload = (Returns (failure ''No command specified''), [])"
    by (simp add: executeShellCommand_def)
next
  assume a: "payload ''signal'' = JString [] \<and> payload ''pid'' = JNumber (Finite (real_of_int k)) \<and> 1 \<le> k"
  then have ok: "\<not> invalid_pid (parseNumber (payload ''pid''))"
    using invalid_pid_iff [of "payload ''pid''"] by blast
  show "processKill H payload = processKill H (payload(''signal'' := JString ''SIGTERM''))"
    using a by (simp add: processKill_def Let_def)
  show "snd (processKill H payload) = [ProcessKill (Finite (real_of_int k)) ''SIGTERM'']"
    using a ok by (simp add: processKill_def ALLOWED_SIGNALS_def Let_def split: sum.splits)
next
  assume "\<forall>n. payload ''timeout'' \<noteq> JNumber n"
  then have "parseNumber (payload ''timeout'') = None"
    by (cases "payload ''timeout''") auto
  then show "executeShellCommand K H events payload =
        executeShellCommand K H events (payload(''timeout'' := JNumber (Finite (CMD_DEFAULT_TIMEOUT K))))"
    by (simp add: executeShellCommand_def Let_def split: option.splits)
next
  assume a: "(\<forall>n. payload ''timeout'' \<noteq> JNumber n) \<and>
        1 \<le> CMD_DEFAULT_TIMEOUT K \<and> CMD_DEFAULT_TIMEOUT K \<le> MAX_CMD_TIMEOUT K \<and>
        parseString (payload ''command'') = Some command \<and> validateCommand command = None \<and>
        (case parseString (payload ''cwd'') of Some c \<Rightarrow> c | None \<Rightarrow> homedir H) = cwd \<and>
        validateFilePath H cwd = None"
  then have "parseNumber (payload ''timeout'') = None"
    by (cases "payload ''timeout''") auto
  then show run: "executeShellCommand K H events payload =
        spawn_shell K H (Finite (CMD_DEFAULT_TIMEOUT K)) command cwd events"
    using a by (auto simp: executeShellCommand_def Let_def)
  show "\<exists>sh args env rest. snd (executeShellCommand K H events payload) =
         Spawn sh args cwd env # SetTimeout (Finite (CMD_DEFAULT_TIMEOUT K)) # rest"
    unfolding run by (rule spawn_shell_effects)
qed

theorem empty_fields_are_absent_witness:
  "snd (processKill sample_host (no_payload(''pid'' := JNumber (Finite 4242), ''signal'' := JString []))) =
     [ProcessKill (Finite 4242) ''SIGTERM'']
   \<and> executeShellCommand sample_constants sample_host []
        (no_payload(''command'' := JString ''ls'', ''timeout'' := JString ''5000'')) =
      executeShellCommand sample_constants sample_host []
        (no_payload(''command'' := JString ''ls'', ''timeout'' := JNumber (Finite 60000)))
   \<and> executeShellCommand sample_constants sample_host []
        (no_payload(''command'' := JString ''ls'', ''timeout'' := JString ''5000'')) =
      spawn_shell sample_constants sample_host (Finite 60000) ''ls'' ''/home/user'' []
   \<and> (\<exists>sh args env rest.
        snd (executeShellCommand sample_constants sample_host []
               (no_payload(''command'' := JString ''ls'', ''timeout'' := JString ''5000''))) =
        Spawn sh args ''/home/user'' env # SetTimeout (Finite 60000) # rest)
   \<and> fileRead sample_constants sample_host (no_payload(''path'' := JString [])) =
        (Returns (failure ''No file path specified''), [])
   \<and> executeShellCommand sample_constants sample_host [] (no_payload(''command'' := JString [])) =
        (Returns (failure ''No command specified''), [])"
proof -
  let ?kill = "no_payload(''pid'' := JNumber (Finite 4242), ''signal'' := JString [])"
  let ?run = "no_payload(''command'' := JString ''ls'', ''timeout'' := JString ''5000'')"
  note kill = empty_fields_are_absent [of ?kill sample_constants sample_host "[]" 4242,
      THEN conjunct2, THEN conjunct2, THEN conjunct1, THEN mp]
  note run = empty_fields_are_absent [of ?run sample_constants sample_host "[]" 1,
      THEN conjunct2, THEN conjunct2, THEN conjunct2, THEN conjunct1, THEN mp]
  note spawned = empty_fields_are_absent [of ?run sample_constants sample_host "[]" 1 "''ls''" "''/home/user''",
      THEN conjunct2, THEN conjunct2, THEN conjunct2, THEN conjunct2, THEN mp]
  note rd = empty_fields_are_absent [of "no_payload(''path'' := JString [])" sample_constants sample_host "[]" 1,
      THEN conjunct1, THEN mp]
  note ex = empty_fields_are_absent [of "no_payload(''command'' := JString [])" sample_constants sample_host "[]" 1,
      THEN conjunct2, THEN conjunct1, THEN mp]
  have "?kill ''signal'' = JString [] \<and> ?kill ''pid'' = JNumber (Finite (real_of_int 4242)) \<and> (1::int) \<le> 4242"
    by simp
  from kill [OF this, THEN conjunct2]
  have a: "snd (processKill sample_host ?kill) = [ProcessKill (Finite 4242) ''SIGTERM'']"
    by simp
  have "\<forall>n. ?run ''timeout'' \<noteq> JNumber n" by simp
  from run [OF this]
  have b: "executeShellCommand sample_constants sample_host [] ?run =
      executeShellCommand sample_constants sample_host []
        (no_payload(''command'' := JString ''ls'', ''timeout'' := JNumber (Finite 60000)))"
    by (simp add: sample_constants_def)
  have "(\<forall>n. ?run ''timeout'' \<noteq> JNumber n) \<and>
        1 \<le> CMD_DEFAULT_TIMEOUT sample_constants \<and>
        CMD_DEFAULT_TIMEOUT sample_constants \<le> MAX_CMD_TIMEOUT sample_constants \<and>
        parseString (?run ''command'') = Some ''ls'' \<and> validateCommand ''ls'' = None \<and>
        (case parseString (?run ''cwd'') of Some c \<Rightarrow> c | None \<Rightarrow> homedir sample_host) = ''/home/user'' \<and>
        validateFilePath sample_host ''/home/user'' = None"
    using ls_allowed home_allowed by (simp add: sample_constants_def no_payload_def sample_host_def)
  note s = spawned [OF this]
  have dflt: "CMD_DEFAULT_TIMEOUT sample_constants = 60000" by (simp add: sample_constants_def)
  have b1: "executeShellCommand sample_constants sample_host [] ?run =
      spawn_shell sample_constants sample_host (Finite 60000) ''ls'' ''/home/user'' []"
    using s [THEN conjunct1] unfolding dflt .
  have b2: "\<exists>sh args env rest. snd (executeShellCommand sample_constants sample_host [] ?run) =
        Spawn sh args ''/home/user'' env # SetTimeout (Finite 60000) # rest"
    using s [THEN conjunct2] unfolding dflt .
  have c: "fileRead sample_constants sample_host (no_payload(''path'' := JString [])) =
        (Returns (failure ''No file path specified''), [])"
    using rd by simp
  have d: "executeShellCommand sample_constants sample_host [] (no_payload(''command'' := JString [])) =
        (Returns (failure ''No command specified''), [])"
    using ex by simp
  show ?thesis using a b b1 b2 c d by (intro conjI)
qed

end
